theory Spec2Isabelle
  imports Complex_Main
begin

section \<open>Logistic regression aggregates of logistic.cpp\<close>

text \<open>
  The file implements, for five variants (conjugate gradient, iteratively reweighted least
  squares, incremental gradient, robust variance, marginal effects), a transition function
  (one row), a merge function (two partial states), a final function and, for the three
  optimizers, a result function.

  Numbers. Every slot of a transition state is a \<open>double\<close>; scalar fields are read
  through integer views (\<open>static_cast<uint16_t>(mStorage[1])\<close>). The model idealises
  this arithmetic: a \<open>double\<close> is a \<^typ>\<open>real\<close>, a counter is a \<^typ>\<open>nat\<close>, and
  rounding is left out. Where the program leaves the finite numbers the model says so
  instead of computing on: the size of a state array is computed in \<open>int\<close> and overflows
  from a width of about 46340 (\<open>IntegerOverflow\<close>), and the log-likelihood term, the
  conjugate-gradient step, the link function of the marginal effects and the statistics
  of the robust variance and of the marginal effects can come out as an infinity or NaN
  (\<open>NonFinite\<close>). Sums and products of finite numbers are taken to stay finite, and
  an underflow to zero (as of \<open>1 / (1 + exp z)\<close> for large \<open>z\<close>) counts as rounding.
  The diagnostics of the three optimizers (\<open>stateToResult\<close>) are computed in real
  arithmetic throughout, where a quotient with denominator zero is \<open>0\<close>; no property
  below depends on such a quotient.

  Vectors are lists, matrices are lists of rows. A transition state is a record of the
  fields that the class binds over its storage array.
\<close>

subsection \<open>Vectors and matrices (the Eigen operations that the file uses)\<close>

type_synonym ColumnVector = "real list"
type_synonym Matrix = "real list list"

definition dot :: "ColumnVector \<Rightarrow> ColumnVector \<Rightarrow> real" where
  "dot x y = sum_list (map2 (*) x y)"

definition vadd :: "ColumnVector \<Rightarrow> ColumnVector \<Rightarrow> ColumnVector" where
  "vadd x y = map2 (+) x y"

definition vsub :: "ColumnVector \<Rightarrow> ColumnVector \<Rightarrow> ColumnVector" where
  "vsub x y = map2 (-) x y"

definition smul :: "real \<Rightarrow> ColumnVector \<Rightarrow> ColumnVector" where
  "smul a x = map (\<lambda>e. a * e) x"

definition madd :: "Matrix \<Rightarrow> Matrix \<Rightarrow> Matrix" where
  "madd A B = map2 vadd A B"

definition mscale :: "real \<Rightarrow> Matrix \<Rightarrow> Matrix" where
  "mscale a A = map (smul a) A"

text \<open>\<open>x * trans(y)\<close>: the outer product.\<close>

definition outer :: "ColumnVector \<Rightarrow> ColumnVector \<Rightarrow> Matrix" where
  "outer x y = map (\<lambda>xi. map (\<lambda>yj. xi * yj) y) x"

text \<open>\<open>fill(0)\<close> keeps the dimensions.\<close>

definition vfill0 :: "ColumnVector \<Rightarrow> ColumnVector" where
  "vfill0 x = map (\<lambda>_. 0) x"

definition mfill0 :: "Matrix \<Rightarrow> Matrix" where
  "mfill0 A = map vfill0 A"

definition ncols :: "Matrix \<Rightarrow> nat" where
  "ncols A = (case A of [] \<Rightarrow> 0 | r # _ \<Rightarrow> length r)"

definition column :: "Matrix \<Rightarrow> nat \<Rightarrow> ColumnVector" where
  "column A j = map (\<lambda>r. r ! j) A"

text \<open>\<open>trans(v) * A\<close>, a row vector times a matrix.\<close>

definition vecmat :: "ColumnVector \<Rightarrow> Matrix \<Rightarrow> ColumnVector" where
  "vecmat v A = map (\<lambda>j. dot v (column A j)) [0..<ncols A]"

definition mmul :: "Matrix \<Rightarrow> Matrix \<Rightarrow> Matrix" where
  "mmul A B = map (\<lambda>r. vecmat r B) A"

definition mtrans :: "Matrix \<Rightarrow> Matrix" where
  "mtrans A = map (column A) [0..<ncols A]"

definition diagonal :: "Matrix \<Rightarrow> ColumnVector" where
  "diagonal A = map (\<lambda>i. A ! i ! i) [0..<length A]"

subsection \<open>Shared declarations\<close>

text \<open>\<open>enum { IN_PROCESS, COMPLETED, TERMINATED }\<close>; the field is an integer and is
  compared as one.\<close>

definition IN_PROCESS :: nat where "IN_PROCESS = 0"
definition COMPLETED :: nat where "COMPLETED = 1"
definition TERMINATED :: nat where "TERMINATED = 2"

text \<open>\<open>std::numeric_limits<uint16_t>::max()\<close> and
  \<open>std::numeric_limits<double>::denorm_min()\<close>.\<close>

definition uint16_max :: nat where "uint16_max = 65535"

definition denorm_min :: real where "denorm_min = 1 / 2 ^ 1074"

text \<open>The largest \<open>int\<close> (32 bits) and the largest finite \<open>double\<close>.\<close>

definition INT_MAX :: nat where "INT_MAX = 2147483647"

definition DBL_MAX :: real where "DBL_MAX = (2 - 1 / 2 ^ 52) * 2 ^ 1023"

text \<open>
  Failures. \<open>IncompatibleStates\<close> is the \<open>std::logic_error\<close> of \<open>operator+=\<close>.
  \<open>DimensionMismatch\<close> stands for an operation whose operands disagree in size (a row
  that is not as wide as the state, a previous state of another width): the program has no
  check of its own there and no defined result. \<open>IntegerOverflow\<close> stands for an
  \<open>int\<close> expression whose value exceeds \<open>INT_MAX\<close>: no defined result either (in
  practice an array of the wrong size and accesses outside it). \<open>IndexOutOfRange\<close> is
  the read of a vector entry that the vector does not have. \<open>NonFinite\<close> is not a
  failure of the program: it goes on and returns a value, but with an infinity or NaN in
  it, which the model cannot hold.
\<close>

datatype error =
  IncompatibleStates | DimensionMismatch | IntegerOverflow | IndexOutOfRange | NonFinite

text \<open>
  The comparison \<open>a / b <= c\<close> of finite doubles: for \<open>b = 0\<close> the quotient is
  \<open>+inf\<close> (\<open>a > 0\<close>), \<open>-inf\<close> (\<open>a < 0\<close>) or NaN (\<open>a = 0\<close>), and a comparison
  with NaN is false.
\<close>

definition quotient_le :: "real \<Rightarrow> real \<Rightarrow> real \<Rightarrow> bool" where
  "quotient_le a b c = (if b = 0 then a < 0 else a / b \<le> c)"

text \<open>\<open>AnyType\<close>: a value handed to or returned from the database, or SQL NULL.\<close>

datatype 'a AnyType = Null | Val 'a

definition sigma :: "real \<Rightarrow> real" where
  "sigma x = 1 / (1 + exp (- x))"

definition label :: "bool \<Rightarrow> real" where
  "label b = (if b then 1 else - 1)"

subsection \<open>Conjugate gradient\<close>

record LogRegrCGTransitionState =
  cg_iteration :: nat
  cg_widthOfX :: nat
  cg_coef :: ColumnVector
  cg_dir :: ColumnVector
  cg_grad :: ColumnVector
  cg_beta :: real
  cg_numRows :: nat
  cg_gradNew :: ColumnVector
  cg_X_transp_AX :: Matrix
  cg_logLikelihood :: real
  cg_status :: nat

definition cg_arraySize :: "nat \<Rightarrow> nat" where
  "cg_arraySize inWidthOfX = 6 + inWidthOfX * inWidthOfX + 4 * inWidthOfX"

text \<open>The state over an all-zero array: every field zero but \<open>widthOfX\<close>.\<close>

definition cg_zero_filled :: "nat \<Rightarrow> LogRegrCGTransitionState" where
  "cg_zero_filled inWidthOfX =
     \<lparr>cg_iteration = 0, cg_widthOfX = inWidthOfX,
      cg_coef = replicate inWidthOfX 0, cg_dir = replicate inWidthOfX 0,
      cg_grad = replicate inWidthOfX 0, cg_beta = 0, cg_numRows = 0,
      cg_gradNew = replicate inWidthOfX 0,
      cg_X_transp_AX = replicate inWidthOfX (replicate inWidthOfX 0),
      cg_logLikelihood = 0, cg_status = 0\<rparr>"

text \<open>\<open>initialize\<close>: a zero-filled array of \<open>arraySize(inWidthOfX)\<close> slots, then
  \<open>widthOfX = inWidthOfX\<close>. \<open>arraySize\<close> and the offsets of \<open>rebind\<close> (all smaller
  than \<open>arraySize\<close>) are sums of non-negative \<open>int\<close> terms: they overflow when the
  sum exceeds \<open>INT_MAX\<close>.\<close>

definition cg_initialize :: "nat \<Rightarrow> error + LogRegrCGTransitionState" where
  "cg_initialize inWidthOfX =
     (if cg_arraySize inWidthOfX > INT_MAX then Inl IntegerOverflow
      else Inr (cg_zero_filled inWidthOfX))"

text \<open>\<open>operator=\<close> copies the other state's array slot by slot into the array just
  allotted for \<open>inWidthOfX\<close>.\<close>

definition cg_assign ::
  "nat \<Rightarrow> LogRegrCGTransitionState \<Rightarrow> error + LogRegrCGTransitionState" where
  "cg_assign inWidthOfX inOtherState =
     (if cg_widthOfX inOtherState = inWidthOfX then Inr inOtherState
      else Inl DimensionMismatch)"

definition cg_reset :: "LogRegrCGTransitionState \<Rightarrow> LogRegrCGTransitionState" where
  "cg_reset s =
     s\<lparr>cg_numRows := 0, cg_X_transp_AX := mfill0 (cg_X_transp_AX s),
       cg_gradNew := vfill0 (cg_gradNew s), cg_logLikelihood := 0,
       cg_status := IN_PROCESS\<rparr>"

text \<open>The part of the transition after the comment "Now do the transition step".
  \<open>std::exp(-y * xc)\<close> is \<open>+inf\<close> beyond \<open>DBL_MAX\<close>, and the log-likelihood then
  \<open>-inf\<close>.\<close>

definition cg_accumulate ::
  "LogRegrCGTransitionState \<Rightarrow> real \<Rightarrow> ColumnVector \<Rightarrow> error + LogRegrCGTransitionState" where
  "cg_accumulate s y x =
     (if length x \<noteq> cg_widthOfX s then Inl DimensionMismatch
      else
        let xc = dot x (cg_coef s);
            a = sigma xc * sigma (- xc)
        in if exp (- y * xc) > DBL_MAX then Inl NonFinite
           else
             Inr (s\<lparr>cg_numRows := cg_numRows s + 1,
                      cg_gradNew := vadd (cg_gradNew s) (smul (sigma (- y * xc) * y) x),
                      cg_X_transp_AX := madd (cg_X_transp_AX s) (mscale a (outer x x)),
                      cg_logLikelihood := cg_logLikelihood s - ln (1 + exp (- y * xc))\<rparr>))"

definition logregr_cg_step_transition ::
  "LogRegrCGTransitionState \<Rightarrow> bool \<Rightarrow> ColumnVector \<Rightarrow> LogRegrCGTransitionState AnyType
     \<Rightarrow> error + LogRegrCGTransitionState" where
  "logregr_cg_step_transition state yb x previousState =
     (if cg_numRows state = 0 then
        (if length x > uint16_max then Inr (state\<lparr>cg_status := TERMINATED\<rparr>)
         else
           (case cg_initialize (length x) of
              Inl e \<Rightarrow> Inl e
            | Inr s0 \<Rightarrow>
                (case previousState of
                   Null \<Rightarrow> cg_accumulate s0 (label yb) x
                 | Val p \<Rightarrow>
                     (case cg_assign (length x) p of
                        Inl e \<Rightarrow> Inl e
                      | Inr s \<Rightarrow> cg_accumulate (cg_reset s) (label yb) x))))
      else cg_accumulate state (label yb) x)"

text \<open>\<open>operator+=\<close>. The array of a state has the size that \<open>initialize\<close> allots to
  its width.\<close>

definition cg_plus_assign ::
  "LogRegrCGTransitionState \<Rightarrow> LogRegrCGTransitionState \<Rightarrow> error + LogRegrCGTransitionState" where
  "cg_plus_assign s inOtherState =
     (if cg_arraySize (cg_widthOfX s) \<noteq> cg_arraySize (cg_widthOfX inOtherState)
         \<or> cg_widthOfX s \<noteq> cg_widthOfX inOtherState
      then Inl IncompatibleStates
      else Inr (s\<lparr>cg_numRows := cg_numRows s + cg_numRows inOtherState,
                  cg_gradNew := vadd (cg_gradNew s) (cg_gradNew inOtherState),
                  cg_X_transp_AX := madd (cg_X_transp_AX s) (cg_X_transp_AX inOtherState),
                  cg_logLikelihood := cg_logLikelihood s + cg_logLikelihood inOtherState,
                  cg_status := (if cg_status inOtherState > cg_status s
                                then cg_status inOtherState else cg_status s)\<rparr>))"

definition logregr_cg_step_merge_states ::
  "LogRegrCGTransitionState \<Rightarrow> LogRegrCGTransitionState \<Rightarrow> error + LogRegrCGTransitionState" where
  "logregr_cg_step_merge_states stateLeft stateRight =
     (if cg_numRows stateLeft = 0 then Inr stateRight
      else if cg_numRows stateRight = 0 then Inr stateLeft
      else cg_plus_assign stateLeft stateRight)"

text \<open>
  The final function. The last two statements, \<open>coef += grad . dir / (dir\<^sup>T X dir) * dir\<close>
  and \<open>iteration++\<close>: with a denominator zero the factor is an infinity or NaN, and so is
  every coefficient (there is none when the width is zero).
\<close>

definition cg_update_coef ::
  "LogRegrCGTransitionState \<Rightarrow> (error + LogRegrCGTransitionState) AnyType" where
  "cg_update_coef s =
     (let q = dot (vecmat (cg_dir s) (cg_X_transp_AX s)) (cg_dir s)
      in if q = 0 \<and> cg_dir s \<noteq> [] then Val (Inl NonFinite)
         else
           Val (Inr (s\<lparr>cg_coef :=
                          vadd (cg_coef s) (smul (dot (cg_grad s) (cg_dir s) / q) (cg_dir s)),
                        cg_iteration := cg_iteration s + 1\<rparr>)))"

text \<open>
  After the first iteration \<open>beta\<close> is first the Hestenes-Stiefel quotient and then, if
  \<open>gradNew . d / grad . grad <= denorm_min\<close> (a comparison of doubles), \<open>0\<close>. When the
  test fails and the Hestenes-Stiefel denominator is zero, \<open>beta\<close> stays an infinity or
  NaN.
\<close>

definition logregr_cg_step_final ::
  "LogRegrCGTransitionState \<Rightarrow> (error + LogRegrCGTransitionState) AnyType" where
  "logregr_cg_step_final state =
     (if cg_numRows state = 0 then Null
      else if cg_iteration state = 0 then
        cg_update_coef (state\<lparr>cg_dir := cg_gradNew state, cg_grad := cg_gradNew state\<rparr>)
      else
        let gradNewMinusGrad = vsub (cg_gradNew state) (cg_grad state);
            hs_num = dot (cg_gradNew state) gradNewMinusGrad;
            hs_den = dot (cg_dir state) gradNewMinusGrad
        in if quotient_le hs_num (dot (cg_grad state) (cg_grad state)) denorm_min then
             cg_update_coef
               (state\<lparr>cg_beta := 0,
                      cg_dir := vsub (cg_gradNew state) (smul 0 (cg_dir state)),
                      cg_grad := cg_gradNew state\<rparr>)
           else if hs_den = 0 then Val (Inl NonFinite)
           else
             cg_update_coef
               (state\<lparr>cg_beta := hs_num / hs_den,
                      cg_dir := vsub (cg_gradNew state) (smul (hs_num / hs_den) (cg_dir state)),
                      cg_grad := cg_gradNew state\<rparr>))"

subsection \<open>External collaborators\<close>

text \<open>
  The eigendecomposition (\<open>SymmetricPositiveDefiniteEigenDecomposition\<close>, with its
  \<open>pseudoInverse()\<close> and \<open>conditionNo()\<close>) and the distribution functions
  (\<open>prob::cdf\<close> of the standard normal, and of the complement of Student's t with a
  given number of degrees of freedom) are not part of the file. The functions that call
  them take them as a parameter.
\<close>

record library =
  pseudoInverse :: "Matrix \<Rightarrow> Matrix"
  conditionNo :: "Matrix \<Rightarrow> real"
  normal_cdf :: "real \<Rightarrow> real"
  students_t_complement_cdf :: "real \<Rightarrow> real \<Rightarrow> real"

text \<open>
  One instance, to run the functions on concrete states: the pseudo-inverse and the
  condition number of a diagonal matrix (the reciprocals of its non-zero diagonal entries;
  the largest over the smallest absolute diagonal entry), the logistic approximation of the
  normal distribution function, and the tail of Student's t with one degree of freedom.
  It only serves to evaluate concrete examples: the general theorems below hold for every
  library.
\<close>

definition diag_pseudoInverse :: "Matrix \<Rightarrow> Matrix" where
  "diag_pseudoInverse A =
     map (\<lambda>i. map (\<lambda>j. if i = j \<and> A ! i ! i \<noteq> 0 then 1 / (A ! i ! i) else 0)
                 [0..<length A])
       [0..<length A]"

definition diag_conditionNo :: "Matrix \<Rightarrow> real" where
  "diag_conditionNo A =
     (if A = [] then 0
      else fold max (map abs (diagonal A)) 0 / fold min (map abs (diagonal A)) (abs (A ! 0 ! 0)))"

definition sample_library :: library where
  "sample_library =
     \<lparr>pseudoInverse = diag_pseudoInverse, conditionNo = diag_conditionNo,
      normal_cdf = (\<lambda>z. sigma (1702 / 1000 * z)),
      students_t_complement_cdf = (\<lambda>df t. 1 / 2 - arctan t / pi)\<rparr>"

subsection \<open>Diagnostics of the optimizers: \<open>stateToResult\<close>\<close>

record LogRegrResult =
  res_coef :: ColumnVector
  res_logLikelihood :: real
  res_stdErr :: ColumnVector
  res_waldZStats :: ColumnVector
  res_waldPValues :: ColumnVector
  res_oddsRatios :: ColumnVector
  res_conditionNo :: real
  res_status :: nat

definition stateToResult ::
  "library \<Rightarrow> ColumnVector \<Rightarrow> ColumnVector \<Rightarrow> real \<Rightarrow> real \<Rightarrow> nat \<Rightarrow> LogRegrResult" where
  "stateToResult lib inCoef diagonal_of_inverse_of_X_transp_AX logLikelihood condNo status =
     (let n = length inCoef;
          stdErr = map (\<lambda>i. sqrt (diagonal_of_inverse_of_X_transp_AX ! i)) [0..<n];
          waldZStats = map (\<lambda>i. inCoef ! i / stdErr ! i) [0..<n];
          waldPValues = map (\<lambda>i. 2 * normal_cdf lib (- \<bar>waldZStats ! i\<bar>)) [0..<n];
          oddsRatios = map (\<lambda>i. exp (inCoef ! i)) [0..<n]
      in \<lparr>res_coef = inCoef, res_logLikelihood = logLikelihood, res_stdErr = stdErr,
          res_waldZStats = waldZStats, res_waldPValues = waldPValues,
          res_oddsRatios = oddsRatios, res_conditionNo = condNo, res_status = status\<rparr>)"

definition internal_logregr_cg_result ::
  "library \<Rightarrow> LogRegrCGTransitionState \<Rightarrow> LogRegrResult AnyType" where
  "internal_logregr_cg_result lib state =
     Val (stateToResult lib (cg_coef state)
            (diagonal (pseudoInverse lib (cg_X_transp_AX state)))
            (cg_logLikelihood state) (conditionNo lib (cg_X_transp_AX state))
            (cg_status state))"

subsection \<open>Iteratively reweighted least squares\<close>

record LogRegrIRLSTransitionState =
  irls_widthOfX :: nat
  irls_coef :: ColumnVector
  irls_numRows :: nat
  irls_X_transp_Az :: ColumnVector
  irls_X_transp_AX :: Matrix
  irls_logLikelihood :: real
  irls_status :: nat

definition irls_arraySize :: "nat \<Rightarrow> nat" where
  "irls_arraySize inWidthOfX = 4 + inWidthOfX * inWidthOfX + 2 * inWidthOfX"

definition irls_zero_filled :: "nat \<Rightarrow> LogRegrIRLSTransitionState" where
  "irls_zero_filled inWidthOfX =
     \<lparr>irls_widthOfX = inWidthOfX, irls_coef = replicate inWidthOfX 0, irls_numRows = 0,
      irls_X_transp_Az = replicate inWidthOfX 0,
      irls_X_transp_AX = replicate inWidthOfX (replicate inWidthOfX 0),
      irls_logLikelihood = 0, irls_status = 0\<rparr>"

definition irls_initialize :: "nat \<Rightarrow> error + LogRegrIRLSTransitionState" where
  "irls_initialize inWidthOfX =
     (if irls_arraySize inWidthOfX > INT_MAX then Inl IntegerOverflow
      else Inr (irls_zero_filled inWidthOfX))"

definition irls_assign ::
  "nat \<Rightarrow> LogRegrIRLSTransitionState \<Rightarrow> error + LogRegrIRLSTransitionState" where
  "irls_assign inWidthOfX inOtherState =
     (if irls_widthOfX inOtherState = inWidthOfX then Inr inOtherState
      else Inl DimensionMismatch)"

definition irls_reset :: "LogRegrIRLSTransitionState \<Rightarrow> LogRegrIRLSTransitionState" where
  "irls_reset s =
     s\<lparr>irls_numRows := 0, irls_X_transp_Az := vfill0 (irls_X_transp_Az s),
       irls_X_transp_AX := mfill0 (irls_X_transp_AX s), irls_logLikelihood := 0,
       irls_status := IN_PROCESS\<rparr>"

text \<open>The part of the transition after "Now do the transition step"; as for the
  conjugate gradient, \<open>std::exp(-y * xc)\<close> is \<open>+inf\<close> beyond \<open>DBL_MAX\<close>.\<close>

definition irls_accumulate ::
  "LogRegrIRLSTransitionState \<Rightarrow> real \<Rightarrow> ColumnVector
     \<Rightarrow> error + LogRegrIRLSTransitionState" where
  "irls_accumulate s y x =
     (if length x \<noteq> irls_widthOfX s then Inl DimensionMismatch
      else
        let xc = dot x (irls_coef s);
            a = sigma xc * sigma (- xc);
            az = xc * a + sigma (- y * xc) * y
        in if exp (- y * xc) > DBL_MAX then Inl NonFinite
           else
             Inr (s\<lparr>irls_numRows := irls_numRows s + 1,
                      irls_X_transp_Az := vadd (irls_X_transp_Az s) (smul az x),
                      irls_X_transp_AX := madd (irls_X_transp_AX s) (mscale a (outer x x)),
                      irls_logLikelihood := irls_logLikelihood s - ln (1 + exp (- y * xc))\<rparr>))"

definition logregr_irls_step_transition ::
  "LogRegrIRLSTransitionState \<Rightarrow> bool \<Rightarrow> ColumnVector \<Rightarrow> LogRegrIRLSTransitionState AnyType
     \<Rightarrow> error + LogRegrIRLSTransitionState" where
  "logregr_irls_step_transition state yb x previousState =
     (if irls_numRows state = 0 then
        (if length x > uint16_max then Inr (state\<lparr>irls_status := TERMINATED\<rparr>)
         else
           (case irls_initialize (length x) of
              Inl e \<Rightarrow> Inl e
            | Inr s0 \<Rightarrow>
                (case previousState of
                   Null \<Rightarrow> irls_accumulate s0 (label yb) x
                 | Val p \<Rightarrow>
                     (case irls_assign (length x) p of
                        Inl e \<Rightarrow> Inl e
                      | Inr s \<Rightarrow> irls_accumulate (irls_reset s) (label yb) x))))
      else irls_accumulate state (label yb) x)"

definition irls_plus_assign ::
  "LogRegrIRLSTransitionState \<Rightarrow> LogRegrIRLSTransitionState
     \<Rightarrow> error + LogRegrIRLSTransitionState" where
  "irls_plus_assign s inOtherState =
     (if irls_arraySize (irls_widthOfX s) \<noteq> irls_arraySize (irls_widthOfX inOtherState)
         \<or> irls_widthOfX s \<noteq> irls_widthOfX inOtherState
      then Inl IncompatibleStates
      else Inr (s\<lparr>irls_numRows := irls_numRows s + irls_numRows inOtherState,
                  irls_X_transp_Az := vadd (irls_X_transp_Az s) (irls_X_transp_Az inOtherState),
                  irls_X_transp_AX := madd (irls_X_transp_AX s) (irls_X_transp_AX inOtherState),
                  irls_logLikelihood := irls_logLikelihood s + irls_logLikelihood inOtherState,
                  irls_status := (if irls_status inOtherState > irls_status s
                                  then irls_status inOtherState else irls_status s)\<rparr>))"

definition logregr_irls_step_merge_states ::
  "LogRegrIRLSTransitionState \<Rightarrow> LogRegrIRLSTransitionState
     \<Rightarrow> error + LogRegrIRLSTransitionState" where
  "logregr_irls_step_merge_states stateLeft stateRight =
     (if irls_numRows stateLeft = 0 then Inr stateRight
      else if irls_numRows stateRight = 0 then Inr stateLeft
      else irls_plus_assign stateLeft stateRight)"

text \<open>\<open>inverse * X_transp_Az\<close>, a matrix times a column vector.\<close>

definition matvec :: "Matrix \<Rightarrow> ColumnVector \<Rightarrow> ColumnVector" where
  "matvec A v = map (\<lambda>r. dot r v) A"

definition logregr_irls_step_final ::
  "library \<Rightarrow> LogRegrIRLSTransitionState \<Rightarrow> LogRegrIRLSTransitionState AnyType" where
  "logregr_irls_step_final lib state =
     (if irls_numRows state = 0 then Null
      else
        let inverse_of_X_transp_AX = pseudoInverse lib (irls_X_transp_AX state);
            s1 = state\<lparr>irls_coef := matvec inverse_of_X_transp_AX (irls_X_transp_Az state)\<rparr>;
            s2 = s1\<lparr>irls_X_transp_Az := diagonal inverse_of_X_transp_AX\<rparr>
        in Val (s2\<lparr>irls_X_transp_AX :=
                     (irls_X_transp_AX s2)
                       [0 := (irls_X_transp_AX s2 ! 0)
                               [0 := conditionNo lib (irls_X_transp_AX state)]]\<rparr>))"

definition internal_logregr_irls_result ::
  "library \<Rightarrow> LogRegrIRLSTransitionState \<Rightarrow> LogRegrResult AnyType" where
  "internal_logregr_irls_result lib state =
     Val (stateToResult lib (irls_coef state) (irls_X_transp_Az state)
            (irls_logLikelihood state) (irls_X_transp_AX state ! 0 ! 0) (irls_status state))"

subsection \<open>Incremental gradient\<close>

record LogRegrIGDTransitionState =
  igd_widthOfX :: nat
  igd_stepsize :: real
  igd_coef :: ColumnVector
  igd_numRows :: nat
  igd_X_transp_AX :: Matrix
  igd_logLikelihood :: real
  igd_status :: nat

definition igd_arraySize :: "nat \<Rightarrow> nat" where
  "igd_arraySize inWidthOfX = 5 + inWidthOfX * inWidthOfX + inWidthOfX"

definition igd_zero_filled :: "nat \<Rightarrow> LogRegrIGDTransitionState" where
  "igd_zero_filled inWidthOfX =
     \<lparr>igd_widthOfX = inWidthOfX, igd_stepsize = 0, igd_coef = replicate inWidthOfX 0,
      igd_numRows = 0, igd_X_transp_AX = replicate inWidthOfX (replicate inWidthOfX 0),
      igd_logLikelihood = 0, igd_status = 0\<rparr>"

definition igd_initialize :: "nat \<Rightarrow> error + LogRegrIGDTransitionState" where
  "igd_initialize inWidthOfX =
     (if igd_arraySize inWidthOfX > INT_MAX then Inl IntegerOverflow
      else Inr (igd_zero_filled inWidthOfX))"

definition igd_assign ::
  "nat \<Rightarrow> LogRegrIGDTransitionState \<Rightarrow> error + LogRegrIGDTransitionState" where
  "igd_assign inWidthOfX inOtherState =
     (if igd_widthOfX inOtherState = inWidthOfX then Inr inOtherState
      else Inl DimensionMismatch)"

definition igd_reset :: "LogRegrIGDTransitionState \<Rightarrow> LogRegrIGDTransitionState" where
  "igd_reset s =
     s\<lparr>igd_stepsize := 1 / 100, igd_numRows := 0,
       igd_X_transp_AX := mfill0 (igd_X_transp_AX s), igd_logLikelihood := 0,
       igd_status := IN_PROCESS\<rparr>"

text \<open>The loop \<open>for (i = 0; i < state.coef.size(); i++) state.coef[i] = 0.1\<close>.\<close>

definition igd_fill_coef :: "LogRegrIGDTransitionState \<Rightarrow> LogRegrIGDTransitionState" where
  "igd_fill_coef s = s\<lparr>igd_coef := map (\<lambda>_. 1 / 10) (igd_coef s)\<rparr>"

text \<open>The part of the transition after "Now do the transition step". The update of
  \<open>X_transp_AX\<close> and \<open>logLikelihood\<close> that follows it in the file stands between
  \<open>#if 0\<close> and \<open>#endif\<close>: it is not compiled. What the calls of \<open>printf\<close> print
  is left out; but they read \<open>x[0]\<close>, \<open>x[1]\<close>, \<open>state.coef[0]\<close> and
  \<open>state.coef[1]\<close>, so that a row of fewer than two features is read past its end.\<close>

definition igd_accumulate ::
  "LogRegrIGDTransitionState \<Rightarrow> real \<Rightarrow> ColumnVector \<Rightarrow> error + LogRegrIGDTransitionState" where
  "igd_accumulate s y x =
     (if length x \<noteq> igd_widthOfX s then Inl DimensionMismatch
      else
        let xc = dot x (igd_coef s);
            scale = igd_stepsize s * sigma (- xc * y) * y
        in if length x < 2 then Inl IndexOutOfRange
           else
             Inr (s\<lparr>igd_numRows := igd_numRows s + 1,
                      igd_coef := vadd (igd_coef s) (smul scale x)\<rparr>))"

definition logregr_igd_step_transition ::
  "LogRegrIGDTransitionState \<Rightarrow> bool \<Rightarrow> ColumnVector \<Rightarrow> LogRegrIGDTransitionState AnyType
     \<Rightarrow> error + LogRegrIGDTransitionState" where
  "logregr_igd_step_transition state yb x previousState =
     (if igd_numRows state = 0 then
        (if length x > uint16_max then Inr (state\<lparr>igd_status := TERMINATED\<rparr>)
         else
           (case igd_initialize (length x) of
              Inl e \<Rightarrow> Inl e
            | Inr s0 \<Rightarrow>
                (case previousState of
                   Val p \<Rightarrow>
                     (case igd_assign (length x) p of
                        Inl e \<Rightarrow> Inl e
                      | Inr s \<Rightarrow> igd_accumulate (igd_reset s) (label yb) x)
                 | Null \<Rightarrow> igd_accumulate (igd_fill_coef (igd_reset s0)) (label yb) x)))
      else igd_accumulate state (label yb) x)"

definition igd_plus_assign ::
  "LogRegrIGDTransitionState \<Rightarrow> LogRegrIGDTransitionState
     \<Rightarrow> error + LogRegrIGDTransitionState" where
  "igd_plus_assign s inOtherState =
     (if igd_arraySize (igd_widthOfX s) \<noteq> igd_arraySize (igd_widthOfX inOtherState)
         \<or> igd_widthOfX s \<noteq> igd_widthOfX inOtherState
      then Inl IncompatibleStates
      else
        let totalNumRows = real (igd_numRows s) + real (igd_numRows inOtherState)
        in Inr (s\<lparr>igd_coef :=
                    vadd (smul (real (igd_numRows s) / totalNumRows) (igd_coef s))
                      (smul (real (igd_numRows inOtherState) / totalNumRows)
                         (igd_coef inOtherState)),
                  igd_numRows := igd_numRows s + igd_numRows inOtherState,
                  igd_X_transp_AX := madd (igd_X_transp_AX s) (igd_X_transp_AX inOtherState),
                  igd_logLikelihood := igd_logLikelihood s + igd_logLikelihood inOtherState,
                  igd_status := (if igd_status inOtherState = TERMINATED
                                 then igd_status inOtherState else igd_status s)\<rparr>))"

definition logregr_igd_step_merge_states ::
  "LogRegrIGDTransitionState \<Rightarrow> LogRegrIGDTransitionState
     \<Rightarrow> error + LogRegrIGDTransitionState" where
  "logregr_igd_step_merge_states stateLeft stateRight =
     (if igd_numRows stateLeft = 0 then Inr stateRight
      else if igd_numRows stateRight = 0 then Inr stateLeft
      else igd_plus_assign stateLeft stateRight)"

definition logregr_igd_step_final ::
  "LogRegrIGDTransitionState \<Rightarrow> LogRegrIGDTransitionState AnyType" where
  "logregr_igd_step_final state = (if igd_numRows state = 0 then Null else Val state)"

definition internal_logregr_igd_result ::
  "library \<Rightarrow> LogRegrIGDTransitionState \<Rightarrow> LogRegrResult AnyType" where
  "internal_logregr_igd_result lib state =
     Val (stateToResult lib (igd_coef state)
            (diagonal (pseudoInverse lib (igd_X_transp_AX state)))
            (igd_logLikelihood state) (conditionNo lib (igd_X_transp_AX state))
            (igd_status state))"

subsection \<open>Robust variance\<close>

record RobustLogRegrTransitionState =
  robust_iteration :: nat
  robust_widthOfX :: nat
  robust_coef :: ColumnVector
  robust_numRows :: nat
  robust_X_transp_AX :: Matrix
  robust_meat :: Matrix

definition robust_arraySize :: "nat \<Rightarrow> nat" where
  "robust_arraySize inWidthOfX = 4 + 2 * inWidthOfX * inWidthOfX + inWidthOfX"

record RobustResult =
  rres_coef :: ColumnVector
  rres_stdErr :: ColumnVector
  rres_waldZStats :: ColumnVector
  rres_waldPValues :: ColumnVector

text \<open>The standard error is the square root of a diagonal entry (NaN when the entry is
  negative) and divides the coefficient (an infinity or NaN when it is zero).\<close>

definition robuststateToResult ::
  "library \<Rightarrow> ColumnVector \<Rightarrow> ColumnVector \<Rightarrow> error + RobustResult" where
  "robuststateToResult lib inCoef diagonal_of_varianceMat =
     (let n = length inCoef;
          coef = map (\<lambda>i. inCoef ! i) [0..<n];
          stdErr = map (\<lambda>i. sqrt (diagonal_of_varianceMat ! i)) [0..<n];
          waldZStats = map (\<lambda>i. inCoef ! i / stdErr ! i) [0..<n];
          waldPValues = map (\<lambda>i. 2 * normal_cdf lib (- \<bar>waldZStats ! i\<bar>)) [0..<n]
      in if list_ex (\<lambda>i. diagonal_of_varianceMat ! i \<le> 0) [0..<n] then Inl NonFinite
         else
           Inr \<lparr>rres_coef = coef, rres_stdErr = stdErr, rres_waldZStats = waldZStats,
                rres_waldPValues = waldPValues\<rparr>)"

text \<open>\<open>triangularView<Lower>(A) += B\<close>: only the entries on and below the diagonal
  change.\<close>

definition madd_lower :: "Matrix \<Rightarrow> Matrix \<Rightarrow> Matrix" where
  "madd_lower A B =
     map (\<lambda>i. map (\<lambda>j. if j \<le> i then A ! i ! j + B ! i ! j else A ! i ! j)
                 [0..<length (A ! i)])
       [0..<length A]"

text \<open>The transition. The block that tests \<open>state.numRows == 0\<close>, with the width check,
  \<open>initialize\<close> and the copy of \<open>coef\<close> into the state, stands between \<open>#if 0\<close> and
  \<open>#endif\<close>: it is not compiled. The class has no \<open>status\<close> field.\<close>

definition robust_logregr_step_transition ::
  "RobustLogRegrTransitionState \<Rightarrow> bool \<Rightarrow> ColumnVector \<Rightarrow> ColumnVector
     \<Rightarrow> error + RobustLogRegrTransitionState" where
  "robust_logregr_step_transition state yb x coef =
     (if length x \<noteq> length coef \<or> length x \<noteq> robust_widthOfX state
      then Inl DimensionMismatch
      else
        let y = label yb;
            xc = dot x coef;
            Grad = smul (sigma (- y * xc) * y) x;
            GradGradTranspose = outer Grad Grad;
            a = sigma xc * sigma (- xc)
        in Inr (state\<lparr>robust_numRows := robust_numRows state + 1,
                      robust_meat := madd (robust_meat state) GradGradTranspose,
                      robust_X_transp_AX :=
                        madd_lower (robust_X_transp_AX state) (mscale a (outer x x))\<rparr>))"

definition robust_plus_assign ::
  "RobustLogRegrTransitionState \<Rightarrow> RobustLogRegrTransitionState
     \<Rightarrow> error + RobustLogRegrTransitionState" where
  "robust_plus_assign s inOtherState =
     (if robust_arraySize (robust_widthOfX s) \<noteq> robust_arraySize (robust_widthOfX inOtherState)
         \<or> robust_widthOfX s \<noteq> robust_widthOfX inOtherState
      then Inl IncompatibleStates
      else Inr (s\<lparr>robust_numRows := robust_numRows s + robust_numRows inOtherState,
                  robust_X_transp_AX :=
                    madd (robust_X_transp_AX s) (robust_X_transp_AX inOtherState),
                  robust_meat := madd (robust_meat s) (robust_meat inOtherState)\<rparr>))"

definition robust_logregr_step_merge_states ::
  "RobustLogRegrTransitionState \<Rightarrow> RobustLogRegrTransitionState
     \<Rightarrow> error + RobustLogRegrTransitionState" where
  "robust_logregr_step_merge_states stateLeft stateRight =
     (if robust_numRows stateLeft = 0 then Inr stateRight
      else if robust_numRows stateRight = 0 then Inr stateLeft
      else robust_plus_assign stateLeft stateRight)"

text \<open>The final function: \<open>bread\<close> is the pseudo-inverse that the decomposition of
  \<open>X_transp_AX\<close> returns, \<open>varianceMat = bread * state.meat * bread\<close>.\<close>

definition robust_bread :: "library \<Rightarrow> RobustLogRegrTransitionState \<Rightarrow> Matrix" where
  "robust_bread lib state = pseudoInverse lib (robust_X_transp_AX state)"

definition robust_varianceMat :: "library \<Rightarrow> RobustLogRegrTransitionState \<Rightarrow> Matrix" where
  "robust_varianceMat lib state =
     mmul (mmul (robust_bread lib state) (robust_meat state)) (robust_bread lib state)"

definition robust_logregr_step_final ::
  "library \<Rightarrow> RobustLogRegrTransitionState \<Rightarrow> (error + RobustResult) AnyType" where
  "robust_logregr_step_final lib state =
     (if robust_numRows state = 0 then Null
      else
        Val (robuststateToResult lib (robust_coef state)
               (diagonal (robust_varianceMat lib state))))"

subsection \<open>Marginal effects\<close>

record MarginalLogRegrTransitionState =
  marginal_iteration :: nat
  marginal_widthOfX :: nat
  marginal_coef :: ColumnVector
  marginal_numRows :: nat
  marginal_effects_per_observation :: real
  marginal_X_bar :: ColumnVector
  marginal_X_transp_AX :: Matrix

definition marginal_arraySize :: "nat \<Rightarrow> nat" where
  "marginal_arraySize inWidthOfX = 4 + 1 * inWidthOfX * inWidthOfX + 2 * inWidthOfX"

record MarginalResult =
  mres_marginal_effects :: ColumnVector
  mres_coef :: ColumnVector
  mres_stdErr :: ColumnVector
  mres_tStats :: ColumnVector
  mres_pValues :: "ColumnVector AnyType"

text \<open>\<open>numRows\<close> is a \<open>double\<close> parameter here. As in \<open>robuststateToResult\<close>, a
  diagonal entry that is not positive gives a standard error or a t-statistic that is
  not a finite number; so does the division by \<open>numRows = 0\<close>.\<close>

definition marginalstateToResult ::
  "library \<Rightarrow> ColumnVector \<Rightarrow> ColumnVector \<Rightarrow> real \<Rightarrow> real \<Rightarrow> error + MarginalResult" where
  "marginalstateToResult lib inCoef diagonal_of_variance_matrix
       inmarginal_effects_per_observation numRows =
     (let n = length inCoef;
          coef = map (\<lambda>i. inCoef ! i) [0..<n];
          marginal_effects =
            map (\<lambda>i. inCoef ! i * inmarginal_effects_per_observation / numRows) [0..<n];
          stdErr = map (\<lambda>i. sqrt (diagonal_of_variance_matrix ! i)) [0..<n];
          tStats = map (\<lambda>i. marginal_effects ! i / stdErr ! i) [0..<n];
          pValues =
            map (\<lambda>i. 2 * students_t_complement_cdf lib (numRows - real n) \<bar>tStats ! i\<bar>)
              [0..<n]
      in if list_ex (\<lambda>i. numRows = 0 \<or> diagonal_of_variance_matrix ! i \<le> 0) [0..<n]
         then Inl NonFinite
         else
           Inr \<lparr>mres_marginal_effects = marginal_effects, mres_coef = coef,
                mres_stdErr = stdErr, mres_tStats = tStats,
                mres_pValues = (if numRows > real n then Val pValues else Null)\<rparr>)"

text \<open>The transition; as for the robust variance, the block with the width check and
  \<open>initialize\<close> is not compiled. The label (\<open>args[1]\<close>) is not read.
  \<open>std::exp(xc) / (1 + std::exp(xc))\<close> is NaN once \<open>std::exp(xc)\<close> is \<open>+inf\<close>.\<close>

definition marginal_logregr_step_transition ::
  "MarginalLogRegrTransitionState \<Rightarrow> bool \<Rightarrow> ColumnVector \<Rightarrow> ColumnVector
     \<Rightarrow> error + MarginalLogRegrTransitionState" where
  "marginal_logregr_step_transition state yb x coef =
     (if length x \<noteq> length coef \<or> length x \<noteq> marginal_widthOfX state
      then Inl DimensionMismatch
      else
        let xc = dot x coef;
            G_xc = exp xc / (1 + exp xc);
            a = sigma xc * sigma (- xc)
        in if exp xc > DBL_MAX then Inl NonFinite
           else
             Inr (state\<lparr>marginal_numRows := marginal_numRows state + 1,
                          marginal_effects_per_observation :=
                            marginal_effects_per_observation state + G_xc * (1 - G_xc),
                          marginal_X_bar := vadd (marginal_X_bar state) x,
                          marginal_X_transp_AX :=
                            madd (marginal_X_transp_AX state) (mscale a (outer x x))\<rparr>))"

definition marginal_plus_assign ::
  "MarginalLogRegrTransitionState \<Rightarrow> MarginalLogRegrTransitionState
     \<Rightarrow> error + MarginalLogRegrTransitionState" where
  "marginal_plus_assign s inOtherState =
     (if marginal_arraySize (marginal_widthOfX s)
           \<noteq> marginal_arraySize (marginal_widthOfX inOtherState)
         \<or> marginal_widthOfX s \<noteq> marginal_widthOfX inOtherState
      then Inl IncompatibleStates
      else Inr (s\<lparr>marginal_numRows := marginal_numRows s + marginal_numRows inOtherState,
                  marginal_effects_per_observation :=
                    marginal_effects_per_observation s
                      + marginal_effects_per_observation inOtherState,
                  marginal_X_bar := vadd (marginal_X_bar s) (marginal_X_bar inOtherState),
                  marginal_X_transp_AX :=
                    madd (marginal_X_transp_AX s) (marginal_X_transp_AX inOtherState)\<rparr>))"

definition marginal_logregr_step_merge_states ::
  "MarginalLogRegrTransitionState \<Rightarrow> MarginalLogRegrTransitionState
     \<Rightarrow> error + MarginalLogRegrTransitionState" where
  "marginal_logregr_step_merge_states stateLeft stateRight =
     (if marginal_numRows stateLeft = 0 then Inr stateRight
      else if marginal_numRows stateRight = 0 then Inr stateLeft
      else marginal_plus_assign stateLeft stateRight)"

text \<open>\<open>delta(i,i) += 1\<close> for \<open>i < widthOfX\<close>.\<close>

definition add_identity :: "nat \<Rightarrow> Matrix \<Rightarrow> Matrix" where
  "add_identity w A =
     map (\<lambda>i. map (\<lambda>j. if i = j \<and> i < w then A ! i ! j + 1 else A ! i ! j)
                 [0..<length (A ! i)])
       [0..<length A]"

definition mdiv :: "Matrix \<Rightarrow> real \<Rightarrow> Matrix" where
  "mdiv A c = map (map (\<lambda>e. e / c)) A"

text \<open>The final function, in two parts: the matrix \<open>std_err\<close> of the delta method, and
  the call of \<open>marginalstateToResult\<close> on its diagonal.\<close>

definition marginal_std_err :: "library \<Rightarrow> MarginalLogRegrTransitionState \<Rightarrow> Matrix" where
  "marginal_std_err lib state =
     (let variance = pseudoInverse lib (marginal_X_transp_AX state);
          xc = dot (marginal_coef state) (marginal_X_bar state)
                 / real (marginal_numRows state);
          p = exp xc / (1 + exp xc);
          delta = add_identity (marginal_widthOfX state)
                    (mdiv (outer (smul (1 - 2 * p) (marginal_coef state))
                             (marginal_X_bar state))
                       (real (marginal_numRows state)))
      in mscale (1 - p)
           (mscale p
              (mmul (mmul (mscale (p * (1 - p)) delta) variance) (mtrans delta))))"

definition marginal_logregr_step_final ::
  "library \<Rightarrow> MarginalLogRegrTransitionState \<Rightarrow> (error + MarginalResult) AnyType" where
  "marginal_logregr_step_final lib state =
     (if marginal_numRows state = 0 then Null
      else if exp (dot (marginal_coef state) (marginal_X_bar state)
                     / real (marginal_numRows state)) > DBL_MAX
      then Val (Inl NonFinite)
      else
        Val (marginalstateToResult lib (marginal_coef state)
               (diagonal (marginal_std_err lib state))
               (marginal_effects_per_observation state)
               (real (marginal_numRows state))))"

subsection \<open>Notions used to state the properties\<close>

text \<open>Three states merged as \<open>merge(merge(A,B),C)\<close> and as \<open>merge(A,merge(B,C))\<close>; a
  failed merge fails the whole.\<close>

definition merge_left ::
  "('s \<Rightarrow> 's \<Rightarrow> error + 's) \<Rightarrow> 's \<Rightarrow> 's \<Rightarrow> 's \<Rightarrow> error + 's" where
  "merge_left m A B C = (case m A B of Inl e \<Rightarrow> Inl e | Inr s \<Rightarrow> m s C)"

definition merge_right ::
  "('s \<Rightarrow> 's \<Rightarrow> error + 's) \<Rightarrow> 's \<Rightarrow> 's \<Rightarrow> 's \<Rightarrow> error + 's" where
  "merge_right m A B C = (case m B C of Inl e \<Rightarrow> Inl e | Inr s \<Rightarrow> m A s)"

text \<open>The fields that a merge combines (the intra-iteration components of the array
  layouts, with \<open>status\<close>; for the incremental gradient the coefficients instead).\<close>

definition cg_merged_fields ::
  "LogRegrCGTransitionState \<Rightarrow> nat \<times> ColumnVector \<times> Matrix \<times> real \<times> nat" where
  "cg_merged_fields s =
     (cg_numRows s, cg_gradNew s, cg_X_transp_AX s, cg_logLikelihood s, cg_status s)"

definition irls_merged_fields ::
  "LogRegrIRLSTransitionState \<Rightarrow> nat \<times> ColumnVector \<times> Matrix \<times> real \<times> nat" where
  "irls_merged_fields s =
     (irls_numRows s, irls_X_transp_Az s, irls_X_transp_AX s, irls_logLikelihood s,
      irls_status s)"

definition igd_merged_fields ::
  "LogRegrIGDTransitionState \<Rightarrow> nat \<times> ColumnVector \<times> Matrix \<times> real" where
  "igd_merged_fields s =
     (igd_numRows s, igd_coef s, igd_X_transp_AX s, igd_logLikelihood s)"

definition robust_merged_fields ::
  "RobustLogRegrTransitionState \<Rightarrow> nat \<times> Matrix \<times> Matrix" where
  "robust_merged_fields s = (robust_numRows s, robust_X_transp_AX s, robust_meat s)"

definition marginal_merged_fields ::
  "MarginalLogRegrTransitionState \<Rightarrow> nat \<times> real \<times> ColumnVector \<times> Matrix" where
  "marginal_merged_fields s =
     (marginal_numRows s, marginal_effects_per_observation s, marginal_X_bar s,
      marginal_X_transp_AX s)"

text \<open>The contribution of one row as the specification words it: the rank-one update
  \<open>x x\<^sup>T a\<close> with \<open>a = sigma(xc) sigma(-xc)\<close>, \<open>xc = x . coef\<close>, and the term
  \<open>ln(1 + e\<^sup>-\<^sup>y\<^sup>x\<^sup>c)\<close> of the log-likelihood.\<close>

definition spec_rank_one :: "ColumnVector \<Rightarrow> ColumnVector \<Rightarrow> Matrix" where
  "spec_rank_one x coef =
     map (\<lambda>xi. map (\<lambda>xj. xi * xj * (sigma (dot x coef) * sigma (- dot x coef))) x) x"

definition spec_loglik_term :: "real \<Rightarrow> ColumnVector \<Rightarrow> ColumnVector \<Rightarrow> real" where
  "spec_loglik_term y x coef = ln (1 + exp (- (y * dot x coef)))"

text \<open>The conjugate-gradient step as the specification words it: \<open>beta\<close> is the
  Hestenes-Stiefel quotient, reset to \<open>0\<close> when the Polak-Ribiere ratio is not
  distinguishably positive, and the new direction is \<open>gradNew\<close> at iteration 0 and
  \<open>gradNew - beta dir\<close> later.\<close>

definition spec_cg_beta :: "LogRegrCGTransitionState \<Rightarrow> real" where
  "spec_cg_beta s =
     (if dot (cg_gradNew s) (vsub (cg_gradNew s) (cg_grad s)) / dot (cg_grad s) (cg_grad s)
           \<le> denorm_min
      then 0
      else dot (cg_gradNew s) (vsub (cg_gradNew s) (cg_grad s))
             / dot (cg_dir s) (vsub (cg_gradNew s) (cg_grad s)))"

definition spec_cg_dir :: "LogRegrCGTransitionState \<Rightarrow> ColumnVector" where
  "spec_cg_dir s =
     (if cg_iteration s = 0 then cg_gradNew s
      else vsub (cg_gradNew s) (smul (spec_cg_beta s) (cg_dir s)))"



text \<open>Any sequence of merges of per-partition states is a binary tree with the partitions
  at its leaves.\<close>

datatype merge_tree = Leaf LogRegrIGDTransitionState | Node merge_tree merge_tree

fun igd_merge_tree :: "merge_tree \<Rightarrow> error + LogRegrIGDTransitionState" where
  "igd_merge_tree (Leaf s) = Inr s"
| "igd_merge_tree (Node l r) =
     (case igd_merge_tree l of
        Inl e \<Rightarrow> Inl e
      | Inr a \<Rightarrow>
          (case igd_merge_tree r of
             Inl e \<Rightarrow> Inl e
           | Inr b \<Rightarrow> logregr_igd_step_merge_states a b))"

fun total_rows :: "merge_tree \<Rightarrow> nat" where
  "total_rows (Leaf s) = igd_numRows s"
| "total_rows (Node l r) = total_rows l + total_rows r"

text \<open>The sum of the partitions' coefficient vectors, each multiplied by its row count.\<close>

fun weighted_sum :: "merge_tree \<Rightarrow> ColumnVector" where
  "weighted_sum (Leaf s) = smul (real (igd_numRows s)) (igd_coef s)"
| "weighted_sum (Node l r) = vadd (weighted_sum l) (weighted_sum r)"

text \<open>Every partition holds at least one row and has width \<open>w\<close>.\<close>

fun partitions_ok :: "nat \<Rightarrow> merge_tree \<Rightarrow> bool" where
  "partitions_ok w (Leaf s) = (igd_numRows s \<noteq> 0 \<and> igd_widthOfX s = w)"
| "partitions_ok w (Node l r) = (partitions_ok w l \<and> partitions_ok w r)"

subsection \<open>Concrete states\<close>

text \<open>The state after the single row \<open>x = [1, 2]\<close>, \<open>y = +1\<close> of a first iteration.\<close>

definition cg_scenario :: LogRegrCGTransitionState where
  "cg_scenario =
     \<lparr>cg_iteration = 0, cg_widthOfX = 2, cg_coef = [0, 0], cg_dir = [0, 0], cg_grad = [0, 0],
      cg_beta = 0, cg_numRows = 1, cg_gradNew = [1 / 2, 1],
      cg_X_transp_AX = [[1 / 4, 1 / 2], [1 / 2, 1]], cg_logLikelihood = - ln 2,
      cg_status = 0\<rparr>"

text \<open>A state of a second iteration (\<open>iteration = 1\<close>).\<close>

definition cg_second :: LogRegrCGTransitionState where
  "cg_second =
     \<lparr>cg_iteration = 1, cg_widthOfX = 2, cg_coef = [2 / 5, 4 / 5], cg_dir = [1 / 2, 1],
      cg_grad = [1 / 2, 1], cg_beta = 0, cg_numRows = 1, cg_gradNew = [1, 1],
      cg_X_transp_AX = [[1, 0], [0, 1]], cg_logLikelihood = - 1, cg_status = 0\<rparr>"

text \<open>States of width one that hold \<open>k\<close> rows.\<close>

definition cg_sample :: "nat \<Rightarrow> LogRegrCGTransitionState" where
  "cg_sample k =
     \<lparr>cg_iteration = 0, cg_widthOfX = 1, cg_coef = [0], cg_dir = [0], cg_grad = [0],
      cg_beta = 0, cg_numRows = k, cg_gradNew = [real k / 2],
      cg_X_transp_AX = [[real k / 4]], cg_logLikelihood = - real k, cg_status = 0\<rparr>"

definition irls_sample :: "nat \<Rightarrow> LogRegrIRLSTransitionState" where
  "irls_sample k =
     \<lparr>irls_widthOfX = 1, irls_coef = [0], irls_numRows = k, irls_X_transp_Az = [real k / 2],
      irls_X_transp_AX = [[real k / 4]], irls_logLikelihood = - real k, irls_status = 0\<rparr>"

definition igd_sample :: "nat \<Rightarrow> LogRegrIGDTransitionState" where
  "igd_sample k =
     \<lparr>igd_widthOfX = 1, igd_stepsize = 1 / 100, igd_coef = [real k], igd_numRows = k,
      igd_X_transp_AX = [[0]], igd_logLikelihood = 0, igd_status = 0\<rparr>"

definition robust_sample :: "nat \<Rightarrow> RobustLogRegrTransitionState" where
  "robust_sample k =
     \<lparr>robust_iteration = 0, robust_widthOfX = 1, robust_coef = [0], robust_numRows = k,
      robust_X_transp_AX = [[real k / 4]], robust_meat = [[real k / 4]]\<rparr>"

definition marginal_sample :: "nat \<Rightarrow> MarginalLogRegrTransitionState" where
  "marginal_sample k =
     \<lparr>marginal_iteration = 0, marginal_widthOfX = 1, marginal_coef = [0],
      marginal_numRows = k, marginal_effects_per_observation = real k / 4,
      marginal_X_bar = [real k], marginal_X_transp_AX = [[real k / 4]]\<rparr>"

text \<open>An incremental-gradient state of width two with one row and coefficients zero.\<close>

definition igd_pair :: LogRegrIGDTransitionState where
  "igd_pair =
     \<lparr>igd_widthOfX = 2, igd_stepsize = 1 / 100, igd_coef = [0, 0], igd_numRows = 1,
      igd_X_transp_AX = [[0, 0], [0, 0]], igd_logLikelihood = 0, igd_status = 0\<rparr>"

text \<open>Marginal-effects states of width one with \<open>k\<close> rows, coefficient \<open>2\<close> and
  feature sum \<open>0\<close>.\<close>

definition marginal_example :: "nat \<Rightarrow> MarginalLogRegrTransitionState" where
  "marginal_example k =
     \<lparr>marginal_iteration = 0, marginal_widthOfX = 1, marginal_coef = [2],
      marginal_numRows = k, marginal_effects_per_observation = 1 / 4,
      marginal_X_bar = [0], marginal_X_transp_AX = [[1 / 4]]\<rparr>"

text \<open>The array that the database hands to the first transition of a partition: all zeros,
  so \<open>widthOfX = 0\<close> and every vector and matrix is empty.\<close>

definition robust_fresh :: RobustLogRegrTransitionState where
  "robust_fresh =
     \<lparr>robust_iteration = 0, robust_widthOfX = 0, robust_coef = [], robust_numRows = 0,
      robust_X_transp_AX = [], robust_meat = []\<rparr>"

definition marginal_fresh :: MarginalLogRegrTransitionState where
  "marginal_fresh =
     \<lparr>marginal_iteration = 0, marginal_widthOfX = 0, marginal_coef = [],
      marginal_numRows = 0, marginal_effects_per_observation = 0, marginal_X_bar = [],
      marginal_X_transp_AX = []\<rparr>"



section \<open>Properties\<close>

subsection \<open>Vector and matrix sums\<close>

lemma vadd_commute: "vadd x y = vadd y x"
proof (induction x arbitrary: y)
  case Nil
  then show ?case by (simp add: vadd_def)
next
  case (Cons a x)
  then show ?case by (cases y) (simp_all add: vadd_def)
qed

lemma vadd_assoc: "vadd (vadd x y) z = vadd x (vadd y z)"
proof (induction x arbitrary: y z)
  case Nil
  then show ?case by (simp add: vadd_def)
next
  case (Cons a x)
  show ?case
  proof (cases y)
    case Nil
    then show ?thesis by (simp add: vadd_def)
  next
    case yc: (Cons b y')
    show ?thesis
    proof (cases z)
      case Nil
      then show ?thesis by (simp add: vadd_def)
    next
      case (Cons c z')
      with yc Cons.IH [of y' z'] show ?thesis by (simp add: vadd_def)
    qed
  qed
qed

lemma madd_commute: "madd A B = madd B A"
proof (induction A arbitrary: B)
  case Nil
  then show ?case by (simp add: madd_def)
next
  case (Cons a A)
  then show ?case by (cases B) (simp_all add: madd_def vadd_commute)
qed

lemma madd_assoc: "madd (madd A B) C = madd A (madd B C)"
proof (induction A arbitrary: B C)
  case Nil
  then show ?case by (simp add: madd_def)
next
  case (Cons a A)
  show ?case
  proof (cases B)
    case Nil
    then show ?thesis by (simp add: madd_def)
  next
    case bc: (Cons b B')
    show ?thesis
    proof (cases C)
      case Nil
      then show ?thesis by (simp add: madd_def)
    next
      case (Cons c C')
      with bc Cons.IH [of B' C'] show ?thesis by (simp add: madd_def vadd_assoc)
    qed
  qed
qed

lemma smul_vadd: "smul p (vadd x y) = vadd (smul p x) (smul p y)"
proof (induction x arbitrary: y)
  case Nil
  then show ?case by (simp add: vadd_def smul_def)
next
  case (Cons a x)
  then show ?case by (cases y) (simp_all add: vadd_def smul_def algebra_simps)
qed

lemma smul_smul: "smul p (smul a x) = smul (p * a) x"
  by (simp add: smul_def)

lemma smul_one: "smul 1 x = x"
  by (simp add: smul_def)

lemma rank_one_update:
  "mscale (sigma (dot x coef) * sigma (- dot x coef)) (outer x x) = spec_rank_one x coef"
  by (simp add: mscale_def outer_def smul_def spec_rank_one_def mult.commute)


subsection \<open>Ranges of the machine numbers\<close>

lemma DBL_MAX_ge_one: "1 \<le> DBL_MAX"
proof -
  have "(1::real) \<le> 2 - 1 / 2 ^ 52" by simp
  moreover have "(1::real) \<le> 2 ^ 1023" by (rule one_le_power) simp
  ultimately have "(1::real) * 1 \<le> (2 - 1 / 2 ^ 52) * 2 ^ 1023"
    by (rule mult_mono) simp_all
  then show ?thesis by (simp only: DBL_MAX_def mult_1)
qed

lemma dot_replicate_zero: "dot x (replicate n 0) = 0"
proof (induction x arbitrary: n)
  case Nil
  then show ?case by (simp add: dot_def)
next
  case (Cons a x)
  then show ?case by (cases n) (simp_all add: dot_def)
qed

text \<open>The sizes of the state arrays are within \<open>int\<close> up to 46338, 46339 and 46340
  features.\<close>

lemma square_mono: "(a::nat) \<le> b \<Longrightarrow> a * a \<le> b * b"
  by (rule mult_le_mono)

lemma cg_arraySize_bound: "cg_arraySize w \<le> INT_MAX \<longleftrightarrow> w \<le> 46338"
proof
  assume "w \<le> 46338"
  then have "w * w \<le> 46338 * 46338" by (rule square_mono)
  with \<open>w \<le> 46338\<close> show "cg_arraySize w \<le> INT_MAX"
    by (simp add: cg_arraySize_def INT_MAX_def)
next
  assume a: "cg_arraySize w \<le> INT_MAX"
  show "w \<le> 46338"
  proof (rule ccontr)
    assume "\<not> w \<le> 46338"
    then have b: "46339 \<le> w" by simp
    then have "46339 * 46339 \<le> w * w" by (rule square_mono)
    with a b show False by (simp add: cg_arraySize_def INT_MAX_def)
  qed
qed

lemma irls_arraySize_bound: "irls_arraySize w \<le> INT_MAX \<longleftrightarrow> w \<le> 46339"
proof
  assume "w \<le> 46339"
  then have "w * w \<le> 46339 * 46339" by (rule square_mono)
  with \<open>w \<le> 46339\<close> show "irls_arraySize w \<le> INT_MAX"
    by (simp add: irls_arraySize_def INT_MAX_def)
next
  assume a: "irls_arraySize w \<le> INT_MAX"
  show "w \<le> 46339"
  proof (rule ccontr)
    assume "\<not> w \<le> 46339"
    then have b: "46340 \<le> w" by simp
    then have "46340 * 46340 \<le> w * w" by (rule square_mono)
    with a b show False by (simp add: irls_arraySize_def INT_MAX_def)
  qed
qed

lemma igd_arraySize_bound: "igd_arraySize w \<le> INT_MAX \<longleftrightarrow> w \<le> 46340"
proof
  assume "w \<le> 46340"
  then have "w * w \<le> 46340 * 46340" by (rule square_mono)
  with \<open>w \<le> 46340\<close> show "igd_arraySize w \<le> INT_MAX"
    by (simp add: igd_arraySize_def INT_MAX_def)
next
  assume a: "igd_arraySize w \<le> INT_MAX"
  show "w \<le> 46340"
  proof (rule ccontr)
    assume "\<not> w \<le> 46340"
    then have b: "46341 \<le> w" by simp
    then have "46341 * 46341 \<le> w * w" by (rule square_mono)
    with a b show False by (simp add: igd_arraySize_def INT_MAX_def)
  qed
qed

lemma cg_initialize_ok:
  "cg_arraySize w \<le> INT_MAX \<Longrightarrow> cg_initialize w = Inr (cg_zero_filled w)"
  "cg_arraySize w \<le> INT_MAX \<Longrightarrow> w \<le> uint16_max"
  using cg_arraySize_bound [of w] by (simp_all add: cg_initialize_def uint16_max_def)

lemma irls_initialize_ok:
  "irls_arraySize w \<le> INT_MAX \<Longrightarrow> irls_initialize w = Inr (irls_zero_filled w)"
  "irls_arraySize w \<le> INT_MAX \<Longrightarrow> w \<le> uint16_max"
  using irls_arraySize_bound [of w] by (simp_all add: irls_initialize_def uint16_max_def)

lemma igd_initialize_ok:
  "igd_arraySize w \<le> INT_MAX \<Longrightarrow> igd_initialize w = Inr (igd_zero_filled w)"
  "igd_arraySize w \<le> INT_MAX \<Longrightarrow> w \<le> uint16_max"
  using igd_arraySize_bound [of w] by (simp_all add: igd_initialize_def uint16_max_def)

text \<open>Past these widths a first row has no defined result.\<close>

lemma transition_overflow:
  "logregr_cg_step_transition (cg_zero_filled 0) yb (replicate 46339 v) Null
     = Inl IntegerOverflow"
  "logregr_irls_step_transition (irls_zero_filled 0) yb (replicate 46340 v) Null
     = Inl IntegerOverflow"
  "logregr_igd_step_transition (igd_zero_filled 0) yb (replicate 46341 v) Null
     = Inl IntegerOverflow"
  by (simp_all add: logregr_cg_step_transition_def logregr_irls_step_transition_def
      logregr_igd_step_transition_def cg_initialize_def irls_initialize_def igd_initialize_def
      cg_arraySize_def irls_arraySize_def igd_arraySize_def INT_MAX_def uint16_max_def
      cg_zero_filled_def irls_zero_filled_def igd_zero_filled_def)

subsection \<open>Merging three states that hold rows\<close>

lemma cg_chain:
  assumes "cg_numRows A \<noteq> 0" "cg_numRows B \<noteq> 0" "cg_numRows C \<noteq> 0"
    and "cg_widthOfX B = cg_widthOfX A" "cg_widthOfX C = cg_widthOfX A"
  shows "merge_left logregr_cg_step_merge_states A B C
           = merge_right logregr_cg_step_merge_states A B C"
    and "merge_left logregr_cg_step_merge_states A B C
           = merge_left logregr_cg_step_merge_states A C B"
    and "\<not> isl (merge_left logregr_cg_step_merge_states A B C)"
    and "map_sum id cg_merged_fields (logregr_cg_step_merge_states A B)
           = map_sum id cg_merged_fields (logregr_cg_step_merge_states B A)"
  using assms
  by (simp_all add: merge_left_def merge_right_def logregr_cg_step_merge_states_def
      cg_plus_assign_def cg_merged_fields_def vadd_assoc madd_assoc
      vadd_commute [of "cg_gradNew B"] madd_commute [of "cg_X_transp_AX B"])

lemma irls_chain:
  assumes "irls_numRows A \<noteq> 0" "irls_numRows B \<noteq> 0" "irls_numRows C \<noteq> 0"
    and "irls_widthOfX B = irls_widthOfX A" "irls_widthOfX C = irls_widthOfX A"
  shows "merge_left logregr_irls_step_merge_states A B C
           = merge_right logregr_irls_step_merge_states A B C"
    and "merge_left logregr_irls_step_merge_states A B C
           = merge_left logregr_irls_step_merge_states A C B"
    and "\<not> isl (merge_left logregr_irls_step_merge_states A B C)"
    and "map_sum id irls_merged_fields (logregr_irls_step_merge_states A B)
           = map_sum id irls_merged_fields (logregr_irls_step_merge_states B A)"
  using assms
  by (simp_all add: merge_left_def merge_right_def logregr_irls_step_merge_states_def
      irls_plus_assign_def irls_merged_fields_def vadd_assoc madd_assoc
      vadd_commute [of "irls_X_transp_Az B"] madd_commute [of "irls_X_transp_AX B"])

lemma robust_chain:
  assumes "robust_numRows A \<noteq> 0" "robust_numRows B \<noteq> 0" "robust_numRows C \<noteq> 0"
    and "robust_widthOfX B = robust_widthOfX A" "robust_widthOfX C = robust_widthOfX A"
  shows "merge_left robust_logregr_step_merge_states A B C
           = merge_right robust_logregr_step_merge_states A B C"
    and "merge_left robust_logregr_step_merge_states A B C
           = merge_left robust_logregr_step_merge_states A C B"
    and "\<not> isl (merge_left robust_logregr_step_merge_states A B C)"
    and "map_sum id robust_merged_fields (robust_logregr_step_merge_states A B)
           = map_sum id robust_merged_fields (robust_logregr_step_merge_states B A)"
  using assms
  by (simp_all add: merge_left_def merge_right_def robust_logregr_step_merge_states_def
      robust_plus_assign_def robust_merged_fields_def madd_assoc
      madd_commute [of "robust_X_transp_AX B"] madd_commute [of "robust_meat B"])

lemma marginal_chain:
  assumes "marginal_numRows A \<noteq> 0" "marginal_numRows B \<noteq> 0" "marginal_numRows C \<noteq> 0"
    and "marginal_widthOfX B = marginal_widthOfX A" "marginal_widthOfX C = marginal_widthOfX A"
  shows "merge_left marginal_logregr_step_merge_states A B C
           = merge_right marginal_logregr_step_merge_states A B C"
    and "merge_left marginal_logregr_step_merge_states A B C
           = merge_left marginal_logregr_step_merge_states A C B"
    and "\<not> isl (merge_left marginal_logregr_step_merge_states A B C)"
    and "map_sum id marginal_merged_fields (marginal_logregr_step_merge_states A B)
           = map_sum id marginal_merged_fields (marginal_logregr_step_merge_states B A)"
  using assms
  by (simp_all add: merge_left_def merge_right_def marginal_logregr_step_merge_states_def
      marginal_plus_assign_def marginal_merged_fields_def vadd_assoc madd_assoc
      vadd_commute [of "marginal_X_bar B"] madd_commute [of "marginal_X_transp_AX B"])

text \<open>The incremental gradient: the weights of a merge of merges collapse to the shares of
  the row counts in their total.\<close>

lemma weight_collapse:
  fixes a b c :: real
  assumes "0 < a" "0 < b" "0 \<le> c"
  shows "(a + b) / (a + b + c) * (a / (a + b)) = a / (a + b + c)"
    and "(a + b) / (a + b + c) * (b / (a + b)) = b / (a + b + c)"
proof -
  have nz: "a + b \<noteq> 0" "a + b + c \<noteq> 0" using assms by linarith+
  show "(a + b) / (a + b + c) * (a / (a + b)) = a / (a + b + c)"
    using nz by simp
  show "(a + b) / (a + b + c) * (b / (a + b)) = b / (a + b + c)"
    using nz by simp
qed

lemma igd_plus_assign_eq:
  assumes "igd_widthOfX B = igd_widthOfX A"
  shows "igd_plus_assign A B =
     Inr (A\<lparr>igd_coef :=
              vadd (smul (real (igd_numRows A) / (real (igd_numRows A) + real (igd_numRows B)))
                      (igd_coef A))
                (smul (real (igd_numRows B) / (real (igd_numRows A) + real (igd_numRows B)))
                   (igd_coef B)),
            igd_numRows := igd_numRows A + igd_numRows B,
            igd_X_transp_AX := madd (igd_X_transp_AX A) (igd_X_transp_AX B),
            igd_logLikelihood := igd_logLikelihood A + igd_logLikelihood B,
            igd_status := (if igd_status B = TERMINATED then igd_status B else igd_status A)\<rparr>)"
  using assms by (simp add: igd_plus_assign_def Let_def)

lemma igd_coef_left:
  fixes a b c :: real
  assumes "0 < a" "0 < b" "0 < c"
  shows "vadd (smul ((a + b) / (a + b + c)) (vadd (smul (a / (a + b)) x) (smul (b / (a + b)) y)))
           (smul (c / (a + b + c)) z)
         = vadd (smul (a / (a + b + c)) x)
             (vadd (smul (b / (a + b + c)) y) (smul (c / (a + b + c)) z))"
proof -
  have "0 \<le> c" using assms by simp
  from weight_collapse [OF assms(1) assms(2) this]
  show ?thesis by (simp add: smul_vadd smul_smul vadd_assoc)
qed

lemma igd_coef_right:
  fixes a b c :: real
  assumes "0 < a" "0 < b" "0 < c"
  shows "vadd (smul (a / (a + (b + c))) x)
           (smul ((b + c) / (a + (b + c))) (vadd (smul (b / (b + c)) y) (smul (c / (b + c)) z)))
         = vadd (smul (a / (a + b + c)) x)
             (vadd (smul (b / (a + b + c)) y) (smul (c / (a + b + c)) z))"
proof -
  have "0 \<le> a" using assms by simp
  from weight_collapse [OF assms(2) assms(3) this]
  have "(b + c) / (a + (b + c)) * (b / (b + c)) = b / (a + b + c)"
    and "(b + c) / (a + (b + c)) * (c / (b + c)) = c / (a + b + c)"
    by (simp_all add: add.commute add.left_commute)
  then show ?thesis by (simp add: smul_vadd smul_smul add.assoc)
qed

lemma igd_chain:
  assumes "igd_numRows A \<noteq> 0" "igd_numRows B \<noteq> 0" "igd_numRows C \<noteq> 0"
    and "igd_widthOfX B = igd_widthOfX A" "igd_widthOfX C = igd_widthOfX A"
  shows "merge_left logregr_igd_step_merge_states A B C
           = merge_right logregr_igd_step_merge_states A B C"
    and "merge_left logregr_igd_step_merge_states A B C
           = merge_left logregr_igd_step_merge_states A C B"
    and "\<not> isl (merge_left logregr_igd_step_merge_states A B C)"
proof -
  let ?a = "real (igd_numRows A)" and ?b = "real (igd_numRows B)" and ?c = "real (igd_numRows C)"
  let ?w = "vadd (smul (?a / (?a + ?b + ?c)) (igd_coef A))
              (vadd (smul (?b / (?a + ?b + ?c)) (igd_coef B))
                 (smul (?c / (?a + ?b + ?c)) (igd_coef C)))"
  let ?st = "if igd_status C = TERMINATED then igd_status C
             else if igd_status B = TERMINATED then igd_status B else igd_status A"
  let ?r = "A\<lparr>igd_coef := ?w,
              igd_numRows := igd_numRows A + igd_numRows B + igd_numRows C,
              igd_X_transp_AX :=
                madd (igd_X_transp_AX A) (madd (igd_X_transp_AX B) (igd_X_transp_AX C)),
              igd_logLikelihood := igd_logLikelihood A + igd_logLikelihood B + igd_logLikelihood C,
              igd_status := ?st\<rparr>"
  have pos: "0 < ?a" "0 < ?b" "0 < ?c" using assms by simp_all
  have l: "merge_left logregr_igd_step_merge_states A B C = Inr ?r"
    using assms igd_coef_left [OF pos, of "igd_coef A" "igd_coef B" "igd_coef C"]
    by (simp add: merge_left_def logregr_igd_step_merge_states_def igd_plus_assign_eq madd_assoc)
  have r: "merge_right logregr_igd_step_merge_states A B C = Inr ?r"
    using assms igd_coef_right [OF pos, of "igd_coef A" "igd_coef B" "igd_coef C"]
    by (simp add: merge_right_def logregr_igd_step_merge_states_def igd_plus_assign_eq
        add.assoc)
  have pos': "0 < ?a" "0 < ?c" "0 < ?b" using assms by simp_all
  have w': "vadd (smul (?a / (?a + ?c + ?b)) (igd_coef A))
              (vadd (smul (?c / (?a + ?c + ?b)) (igd_coef C))
                 (smul (?b / (?a + ?c + ?b)) (igd_coef B))) = ?w"
    by (simp add: add.commute add.left_commute
        vadd_commute [of "smul (?c / (?a + (?b + ?c))) (igd_coef C)"])
  have l': "merge_left logregr_igd_step_merge_states A C B = Inr ?r"
    using assms igd_coef_left [OF pos', of "igd_coef A" "igd_coef C" "igd_coef B"] w'
    by (simp add: merge_left_def logregr_igd_step_merge_states_def igd_plus_assign_eq madd_assoc
        madd_commute [of "igd_X_transp_AX C" "igd_X_transp_AX B"] TERMINATED_def)
  show "merge_left logregr_igd_step_merge_states A B C
           = merge_right logregr_igd_step_merge_states A B C"
    using l r by simp
  show "merge_left logregr_igd_step_merge_states A B C
           = merge_left logregr_igd_step_merge_states A C B"
    using l l' by simp
  show "\<not> isl (merge_left logregr_igd_step_merge_states A B C)"
    using l by simp
qed

lemma igd_commute:
  assumes "igd_numRows A \<noteq> 0" "igd_numRows B \<noteq> 0" "igd_widthOfX B = igd_widthOfX A"
  shows "map_sum id igd_merged_fields (logregr_igd_step_merge_states A B)
           = map_sum id igd_merged_fields (logregr_igd_step_merge_states B A)"
  using assms
  by (simp add: logregr_igd_step_merge_states_def igd_plus_assign_eq igd_merged_fields_def
      add.commute madd_commute [of "igd_X_transp_AX B"]
      vadd_commute [of "smul (real (igd_numRows B) / (real (igd_numRows A) + real (igd_numRows B))) (igd_coef B)"])


subsection \<open>Merge: order and grouping\<close>

text \<open>
  Claim C1 says that for every variant and any three states of equal width
  \<open>merge(merge(A,B),C) = merge(A,merge(B,C)) = merge(merge(A,C),B)\<close> on every field, the
  status among them. The program fails this. \<open>operator+=\<close> gives the merged state the
  higher status ("merged state should have the higher status"), but the merge functions
  return one operand whole when the other has no rows, and a state without rows can carry
  a status: the transition marks it \<open>TERMINATED\<close> when the first row of a partition is
  wider than 65535. With \<open>A = C\<close> the all-zero state that a partition starts from and
  \<open>B\<close> such a marked state, all of width zero, \<open>merge(merge(A,B),C)\<close> and
  \<open>merge(A,merge(B,C))\<close> are the unmarked state and \<open>merge(merge(A,C),B)\<close> is the
  marked one; so for the three optimizers, the variants that have a status.
\<close>

theorem merge_order_changes_status:
  "logregr_cg_step_transition (cg_zero_filled 0) True (replicate 65536 0) Null
     = Inr ((cg_zero_filled 0)\<lparr>cg_status := TERMINATED\<rparr>)
   \<and> cg_widthOfX ((cg_zero_filled 0)\<lparr>cg_status := TERMINATED\<rparr>)
       = cg_widthOfX (cg_zero_filled 0)
   \<and> merge_left logregr_cg_step_merge_states
        (cg_zero_filled 0) ((cg_zero_filled 0)\<lparr>cg_status := TERMINATED\<rparr>) (cg_zero_filled 0)
       = Inr (cg_zero_filled 0)
   \<and> merge_right logregr_cg_step_merge_states
        (cg_zero_filled 0) ((cg_zero_filled 0)\<lparr>cg_status := TERMINATED\<rparr>) (cg_zero_filled 0)
       = Inr (cg_zero_filled 0)
   \<and> merge_left logregr_cg_step_merge_states
        (cg_zero_filled 0) (cg_zero_filled 0) ((cg_zero_filled 0)\<lparr>cg_status := TERMINATED\<rparr>)
       = Inr ((cg_zero_filled 0)\<lparr>cg_status := TERMINATED\<rparr>)
   \<and> cg_status (cg_zero_filled 0) = IN_PROCESS
   \<and> cg_status ((cg_zero_filled 0)\<lparr>cg_status := TERMINATED\<rparr>) = TERMINATED
   \<and> IN_PROCESS \<noteq> TERMINATED
   \<and> logregr_irls_step_transition (irls_zero_filled 0) True (replicate 65536 0) Null
       = Inr ((irls_zero_filled 0)\<lparr>irls_status := TERMINATED\<rparr>)
   \<and> map_sum id irls_status
        (merge_left logregr_irls_step_merge_states (irls_zero_filled 0)
           ((irls_zero_filled 0)\<lparr>irls_status := TERMINATED\<rparr>) (irls_zero_filled 0))
       = Inr IN_PROCESS
   \<and> map_sum id irls_status
        (merge_left logregr_irls_step_merge_states (irls_zero_filled 0) (irls_zero_filled 0)
           ((irls_zero_filled 0)\<lparr>irls_status := TERMINATED\<rparr>))
       = Inr TERMINATED
   \<and> logregr_igd_step_transition (igd_zero_filled 0) True (replicate 65536 0) Null
       = Inr ((igd_zero_filled 0)\<lparr>igd_status := TERMINATED\<rparr>)
   \<and> map_sum id igd_status
        (merge_left logregr_igd_step_merge_states (igd_zero_filled 0)
           ((igd_zero_filled 0)\<lparr>igd_status := TERMINATED\<rparr>) (igd_zero_filled 0))
       = Inr IN_PROCESS
   \<and> map_sum id igd_status
        (merge_left logregr_igd_step_merge_states (igd_zero_filled 0) (igd_zero_filled 0)
           ((igd_zero_filled 0)\<lparr>igd_status := TERMINATED\<rparr>))
       = Inr TERMINATED"
  by (simp add: logregr_cg_step_transition_def logregr_irls_step_transition_def
      logregr_igd_step_transition_def uint16_max_def merge_left_def merge_right_def
      logregr_cg_step_merge_states_def logregr_irls_step_merge_states_def
      logregr_igd_step_merge_states_def cg_zero_filled_def irls_zero_filled_def
      igd_zero_filled_def TERMINATED_def IN_PROCESS_def)

text \<open>
  Where each of the three states holds at least one row, no merge takes the shortcut, and
  (arithmetic being exact) the three merges succeed and are the same state;
  \<open>merge(A,B)\<close> and \<open>merge(B,A)\<close> agree on the fields that a merge combines. (The other
  fields of a merge are those of its left operand.)
\<close>

lemma merge_with_rows:
  "(cg_numRows A1 \<noteq> 0 \<and> cg_numRows B1 \<noteq> 0 \<and> cg_numRows C1 \<noteq> 0
      \<and> cg_widthOfX B1 = cg_widthOfX A1 \<and> cg_widthOfX C1 = cg_widthOfX A1 \<longrightarrow>
      \<not> isl (merge_left logregr_cg_step_merge_states A1 B1 C1)
      \<and> merge_left logregr_cg_step_merge_states A1 B1 C1
          = merge_right logregr_cg_step_merge_states A1 B1 C1
      \<and> merge_left logregr_cg_step_merge_states A1 B1 C1
          = merge_left logregr_cg_step_merge_states A1 C1 B1
      \<and> map_sum id cg_merged_fields (logregr_cg_step_merge_states A1 B1)
          = map_sum id cg_merged_fields (logregr_cg_step_merge_states B1 A1))
   \<and> (irls_numRows A2 \<noteq> 0 \<and> irls_numRows B2 \<noteq> 0 \<and> irls_numRows C2 \<noteq> 0
      \<and> irls_widthOfX B2 = irls_widthOfX A2 \<and> irls_widthOfX C2 = irls_widthOfX A2 \<longrightarrow>
      \<not> isl (merge_left logregr_irls_step_merge_states A2 B2 C2)
      \<and> merge_left logregr_irls_step_merge_states A2 B2 C2
          = merge_right logregr_irls_step_merge_states A2 B2 C2
      \<and> merge_left logregr_irls_step_merge_states A2 B2 C2
          = merge_left logregr_irls_step_merge_states A2 C2 B2
      \<and> map_sum id irls_merged_fields (logregr_irls_step_merge_states A2 B2)
          = map_sum id irls_merged_fields (logregr_irls_step_merge_states B2 A2))
   \<and> (igd_numRows A3 \<noteq> 0 \<and> igd_numRows B3 \<noteq> 0 \<and> igd_numRows C3 \<noteq> 0
      \<and> igd_widthOfX B3 = igd_widthOfX A3 \<and> igd_widthOfX C3 = igd_widthOfX A3 \<longrightarrow>
      \<not> isl (merge_left logregr_igd_step_merge_states A3 B3 C3)
      \<and> merge_left logregr_igd_step_merge_states A3 B3 C3
          = merge_right logregr_igd_step_merge_states A3 B3 C3
      \<and> merge_left logregr_igd_step_merge_states A3 B3 C3
          = merge_left logregr_igd_step_merge_states A3 C3 B3
      \<and> map_sum id igd_merged_fields (logregr_igd_step_merge_states A3 B3)
          = map_sum id igd_merged_fields (logregr_igd_step_merge_states B3 A3))
   \<and> (robust_numRows A4 \<noteq> 0 \<and> robust_numRows B4 \<noteq> 0 \<and> robust_numRows C4 \<noteq> 0
      \<and> robust_widthOfX B4 = robust_widthOfX A4 \<and> robust_widthOfX C4 = robust_widthOfX A4 \<longrightarrow>
      \<not> isl (merge_left robust_logregr_step_merge_states A4 B4 C4)
      \<and> merge_left robust_logregr_step_merge_states A4 B4 C4
          = merge_right robust_logregr_step_merge_states A4 B4 C4
      \<and> merge_left robust_logregr_step_merge_states A4 B4 C4
          = merge_left robust_logregr_step_merge_states A4 C4 B4
      \<and> map_sum id robust_merged_fields (robust_logregr_step_merge_states A4 B4)
          = map_sum id robust_merged_fields (robust_logregr_step_merge_states B4 A4))
   \<and> (marginal_numRows A5 \<noteq> 0 \<and> marginal_numRows B5 \<noteq> 0 \<and> marginal_numRows C5 \<noteq> 0
      \<and> marginal_widthOfX B5 = marginal_widthOfX A5
      \<and> marginal_widthOfX C5 = marginal_widthOfX A5 \<longrightarrow>
      \<not> isl (merge_left marginal_logregr_step_merge_states A5 B5 C5)
      \<and> merge_left marginal_logregr_step_merge_states A5 B5 C5
          = merge_right marginal_logregr_step_merge_states A5 B5 C5
      \<and> merge_left marginal_logregr_step_merge_states A5 B5 C5
          = merge_left marginal_logregr_step_merge_states A5 C5 B5
      \<and> map_sum id marginal_merged_fields (marginal_logregr_step_merge_states A5 B5)
          = map_sum id marginal_merged_fields (marginal_logregr_step_merge_states B5 A5))"
proof (intro conjI impI)
  assume h: "cg_numRows A1 \<noteq> 0 \<and> cg_numRows B1 \<noteq> 0 \<and> cg_numRows C1 \<noteq> 0
      \<and> cg_widthOfX B1 = cg_widthOfX A1 \<and> cg_widthOfX C1 = cg_widthOfX A1"
  then have n: "cg_numRows A1 \<noteq> 0" "cg_numRows B1 \<noteq> 0" "cg_numRows C1 \<noteq> 0"
    and w: "cg_widthOfX B1 = cg_widthOfX A1" "cg_widthOfX C1 = cg_widthOfX A1"
    by simp_all
  show "\<not> isl (merge_left logregr_cg_step_merge_states A1 B1 C1)"
    by (rule cg_chain(3) [OF n w])
  show "merge_left logregr_cg_step_merge_states A1 B1 C1
          = merge_right logregr_cg_step_merge_states A1 B1 C1"
    by (rule cg_chain(1) [OF n w])
  show "merge_left logregr_cg_step_merge_states A1 B1 C1
          = merge_left logregr_cg_step_merge_states A1 C1 B1"
    by (rule cg_chain(2) [OF n w])
  show "map_sum id cg_merged_fields (logregr_cg_step_merge_states A1 B1)
          = map_sum id cg_merged_fields (logregr_cg_step_merge_states B1 A1)"
    by (rule cg_chain(4) [OF n w])
next
  assume h: "irls_numRows A2 \<noteq> 0 \<and> irls_numRows B2 \<noteq> 0 \<and> irls_numRows C2 \<noteq> 0
      \<and> irls_widthOfX B2 = irls_widthOfX A2 \<and> irls_widthOfX C2 = irls_widthOfX A2"
  then have n: "irls_numRows A2 \<noteq> 0" "irls_numRows B2 \<noteq> 0" "irls_numRows C2 \<noteq> 0"
    and w: "irls_widthOfX B2 = irls_widthOfX A2" "irls_widthOfX C2 = irls_widthOfX A2"
    by simp_all
  show "\<not> isl (merge_left logregr_irls_step_merge_states A2 B2 C2)"
    by (rule irls_chain(3) [OF n w])
  show "merge_left logregr_irls_step_merge_states A2 B2 C2
          = merge_right logregr_irls_step_merge_states A2 B2 C2"
    by (rule irls_chain(1) [OF n w])
  show "merge_left logregr_irls_step_merge_states A2 B2 C2
          = merge_left logregr_irls_step_merge_states A2 C2 B2"
    by (rule irls_chain(2) [OF n w])
  show "map_sum id irls_merged_fields (logregr_irls_step_merge_states A2 B2)
          = map_sum id irls_merged_fields (logregr_irls_step_merge_states B2 A2)"
    by (rule irls_chain(4) [OF n w])
next
  assume h: "igd_numRows A3 \<noteq> 0 \<and> igd_numRows B3 \<noteq> 0 \<and> igd_numRows C3 \<noteq> 0
      \<and> igd_widthOfX B3 = igd_widthOfX A3 \<and> igd_widthOfX C3 = igd_widthOfX A3"
  then have n: "igd_numRows A3 \<noteq> 0" "igd_numRows B3 \<noteq> 0" "igd_numRows C3 \<noteq> 0"
    and w: "igd_widthOfX B3 = igd_widthOfX A3" "igd_widthOfX C3 = igd_widthOfX A3"
    by simp_all
  show "\<not> isl (merge_left logregr_igd_step_merge_states A3 B3 C3)"
    by (rule igd_chain(3) [OF n w])
  show "merge_left logregr_igd_step_merge_states A3 B3 C3
          = merge_right logregr_igd_step_merge_states A3 B3 C3"
    by (rule igd_chain(1) [OF n w])
  show "merge_left logregr_igd_step_merge_states A3 B3 C3
          = merge_left logregr_igd_step_merge_states A3 C3 B3"
    by (rule igd_chain(2) [OF n w])
  show "map_sum id igd_merged_fields (logregr_igd_step_merge_states A3 B3)
          = map_sum id igd_merged_fields (logregr_igd_step_merge_states B3 A3)"
    by (rule igd_commute [OF n(1) n(2) w(1)])
next
  assume h: "robust_numRows A4 \<noteq> 0 \<and> robust_numRows B4 \<noteq> 0 \<and> robust_numRows C4 \<noteq> 0
      \<and> robust_widthOfX B4 = robust_widthOfX A4 \<and> robust_widthOfX C4 = robust_widthOfX A4"
  then have n: "robust_numRows A4 \<noteq> 0" "robust_numRows B4 \<noteq> 0" "robust_numRows C4 \<noteq> 0"
    and w: "robust_widthOfX B4 = robust_widthOfX A4" "robust_widthOfX C4 = robust_widthOfX A4"
    by simp_all
  show "\<not> isl (merge_left robust_logregr_step_merge_states A4 B4 C4)"
    by (rule robust_chain(3) [OF n w])
  show "merge_left robust_logregr_step_merge_states A4 B4 C4
          = merge_right robust_logregr_step_merge_states A4 B4 C4"
    by (rule robust_chain(1) [OF n w])
  show "merge_left robust_logregr_step_merge_states A4 B4 C4
          = merge_left robust_logregr_step_merge_states A4 C4 B4"
    by (rule robust_chain(2) [OF n w])
  show "map_sum id robust_merged_fields (robust_logregr_step_merge_states A4 B4)
          = map_sum id robust_merged_fields (robust_logregr_step_merge_states B4 A4)"
    by (rule robust_chain(4) [OF n w])
next
  assume h: "marginal_numRows A5 \<noteq> 0 \<and> marginal_numRows B5 \<noteq> 0 \<and> marginal_numRows C5 \<noteq> 0
      \<and> marginal_widthOfX B5 = marginal_widthOfX A5
      \<and> marginal_widthOfX C5 = marginal_widthOfX A5"
  then have n: "marginal_numRows A5 \<noteq> 0" "marginal_numRows B5 \<noteq> 0" "marginal_numRows C5 \<noteq> 0"
    and w: "marginal_widthOfX B5 = marginal_widthOfX A5"
      "marginal_widthOfX C5 = marginal_widthOfX A5"
    by simp_all
  show "\<not> isl (merge_left marginal_logregr_step_merge_states A5 B5 C5)"
    by (rule marginal_chain(3) [OF n w])
  show "merge_left marginal_logregr_step_merge_states A5 B5 C5
          = merge_right marginal_logregr_step_merge_states A5 B5 C5"
    by (rule marginal_chain(1) [OF n w])
  show "merge_left marginal_logregr_step_merge_states A5 B5 C5
          = merge_left marginal_logregr_step_merge_states A5 C5 B5"
    by (rule marginal_chain(2) [OF n w])
  show "map_sum id marginal_merged_fields (marginal_logregr_step_merge_states A5 B5)
          = map_sum id marginal_merged_fields (marginal_logregr_step_merge_states B5 A5)"
    by (rule marginal_chain(4) [OF n w])
qed

subsection \<open>No rows\<close>

text \<open>
  Claim C2 says that, for every variant, finalize and result on a state with
  \<open>numRows = 0\<close> both return Null. The final functions do. The result functions of the
  three optimizers do not test \<open>numRows\<close>: on a state of width one without rows the
  conjugate-gradient result is a tuple (with the coefficient \<open>0\<close>, log-likelihood \<open>0\<close>
  and status \<open>IN_PROCESS\<close> of the state).
\<close>

theorem result_no_rows_counterexample:
  "cg_numRows (cg_zero_filled 1) = 0
   \<and> logregr_cg_step_final (cg_zero_filled 1) = Null
   \<and> internal_logregr_cg_result sample_library (cg_zero_filled 1) \<noteq> Null
   \<and> (case internal_logregr_cg_result sample_library (cg_zero_filled 1) of
         Null \<Rightarrow> False
       | Val r \<Rightarrow> res_coef r = [0] \<and> res_logLikelihood r = 0 \<and> res_status r = IN_PROCESS)"
  by (simp add: internal_logregr_cg_result_def stateToResult_def cg_zero_filled_def
      logregr_cg_step_final_def IN_PROCESS_def Let_def)

text \<open>
  Claim C2, amended. For every variant the final function applied to a state with
  \<open>numRows = 0\<close> returns Null. The result functions (conjugate gradient, reweighted least
  squares, incremental gradient) return a tuple of diagnostics for every state, whatever
  its row count.
\<close>

theorem final_no_rows:
  "(cg_numRows s1 = 0 \<longrightarrow> logregr_cg_step_final s1 = Null)
   \<and> (irls_numRows s2 = 0 \<longrightarrow> logregr_irls_step_final lib s2 = Null)
   \<and> (igd_numRows s3 = 0 \<longrightarrow> logregr_igd_step_final s3 = Null)
   \<and> (robust_numRows s4 = 0 \<longrightarrow> robust_logregr_step_final lib s4 = Null)
   \<and> (marginal_numRows s5 = 0 \<longrightarrow> marginal_logregr_step_final lib s5 = Null)
   \<and> internal_logregr_cg_result lib s1 \<noteq> Null
   \<and> internal_logregr_irls_result lib s2 \<noteq> Null
   \<and> internal_logregr_igd_result lib s3 \<noteq> Null"
  by (simp add: logregr_cg_step_final_def logregr_irls_step_final_def
      logregr_igd_step_final_def robust_logregr_step_final_def
      marginal_logregr_step_final_def internal_logregr_cg_result_def
      internal_logregr_irls_result_def internal_logregr_igd_result_def)

theorem final_no_rows_witness:
  "logregr_cg_step_final (cg_zero_filled 0) = Null
   \<and> logregr_irls_step_final sample_library (irls_zero_filled 0) = Null
   \<and> logregr_igd_step_final (igd_zero_filled 0) = Null
   \<and> robust_logregr_step_final sample_library robust_fresh = Null
   \<and> marginal_logregr_step_final sample_library marginal_fresh = Null"
proof -
  have "cg_numRows (cg_zero_filled 0) = 0" "irls_numRows (irls_zero_filled 0) = 0"
    "igd_numRows (igd_zero_filled 0) = 0" "robust_numRows robust_fresh = 0"
    "marginal_numRows marginal_fresh = 0"
    by (simp_all add: cg_zero_filled_def irls_zero_filled_def igd_zero_filled_def
        robust_fresh_def marginal_fresh_def)
  then show ?thesis
    using final_no_rows [of "cg_zero_filled 0" "irls_zero_filled 0" sample_library
        "igd_zero_filled 0" robust_fresh marginal_fresh]
    by blast
qed

subsection \<open>Rows wider than 65535\<close>

text \<open>
  Claim C4 says that for every variant a transition on a state without rows rejects a
  feature vector longer than 65535: status \<open>TERMINATED\<close>, nothing accumulated. The
  robust-variance and the marginal-effects states have no status field, and in their
  transitions the test of the width is not compiled: such a row is not answered with the
  state as it was.
\<close>

theorem wide_row_counterexample:
  "robust_numRows robust_fresh = 0 \<and> marginal_numRows marginal_fresh = 0
   \<and> length (replicate 65536 (0::real)) > 65535
   \<and> robust_logregr_step_transition robust_fresh True (replicate 65536 0) (replicate 65536 0)
       \<noteq> Inr robust_fresh
   \<and> marginal_logregr_step_transition marginal_fresh True (replicate 65536 0)
         (replicate 65536 0)
       \<noteq> Inr marginal_fresh"
  by (simp add: robust_logregr_step_transition_def marginal_logregr_step_transition_def
      robust_fresh_def marginal_fresh_def)

text \<open>
  Claim C4, amended. For the conjugate-gradient, the reweighted-least-squares and the
  incremental-gradient variant, a transition applied to a state with \<open>numRows = 0\<close> and a
  feature vector longer than 65535 returns that state with status \<open>TERMINATED\<close> and
  nothing else changed, whatever the previous state is.
\<close>

theorem wide_row_rejected:
  "(cg_numRows s1 = 0 \<and> length x > 65535 \<longrightarrow>
      logregr_cg_step_transition s1 yb x p1 = Inr (s1\<lparr>cg_status := TERMINATED\<rparr>))
   \<and> (irls_numRows s2 = 0 \<and> length x > 65535 \<longrightarrow>
      logregr_irls_step_transition s2 yb x p2 = Inr (s2\<lparr>irls_status := TERMINATED\<rparr>))
   \<and> (igd_numRows s3 = 0 \<and> length x > 65535 \<longrightarrow>
      logregr_igd_step_transition s3 yb x p3 = Inr (s3\<lparr>igd_status := TERMINATED\<rparr>))"
  by (simp add: logregr_cg_step_transition_def logregr_irls_step_transition_def
      logregr_igd_step_transition_def uint16_max_def)

theorem wide_row_rejected_witness:
  "logregr_cg_step_transition (cg_zero_filled 0) True (replicate 65536 1) Null
     = Inr ((cg_zero_filled 0)\<lparr>cg_status := TERMINATED\<rparr>)
   \<and> logregr_irls_step_transition (irls_zero_filled 0) True (replicate 65536 1) Null
     = Inr ((irls_zero_filled 0)\<lparr>irls_status := TERMINATED\<rparr>)
   \<and> logregr_igd_step_transition (igd_zero_filled 0) True (replicate 65536 1) Null
     = Inr ((igd_zero_filled 0)\<lparr>igd_status := TERMINATED\<rparr>)"
proof -
  have "cg_numRows (cg_zero_filled 0) = 0 \<and> length (replicate 65536 (1::real)) > 65535"
    "irls_numRows (irls_zero_filled 0) = 0 \<and> length (replicate 65536 (1::real)) > 65535"
    "igd_numRows (igd_zero_filled 0) = 0 \<and> length (replicate 65536 (1::real)) > 65535"
    by (simp_all add: cg_zero_filled_def irls_zero_filled_def igd_zero_filled_def)
  then show ?thesis
    using wide_row_rejected [of "cg_zero_filled 0" "replicate 65536 1" True Null
        "irls_zero_filled 0" Null "igd_zero_filled 0" Null]
    by blast
qed

subsection \<open>Merging with a state without rows\<close>

text \<open>
  Claim C5 says that merging any state \<open>A\<close> with a state without rows, in either order,
  yields exactly \<open>A\<close>. The program fails this when \<open>A\<close> has no rows itself but carries
  the mark of a rejected row. The merge functions test the left operand first: with \<open>A\<close>
  the state that the transition returns for a first row of 65536 features (no rows, status
  \<open>TERMINATED\<close>) and \<open>Z\<close> the all-zero state, \<open>merge(A, Z)\<close> is \<open>Z\<close>, status
  \<open>IN_PROCESS\<close>. The same shortcut drops the mark in a merge with a state that holds
  rows, on either side.
\<close>

theorem merge_drops_terminated:
  "logregr_cg_step_transition (cg_zero_filled 0) True (replicate 65536 0) Null
     = Inr ((cg_zero_filled 0)\<lparr>cg_status := TERMINATED\<rparr>)
   \<and> cg_numRows (cg_zero_filled 0) = 0
   \<and> logregr_cg_step_merge_states ((cg_zero_filled 0)\<lparr>cg_status := TERMINATED\<rparr>)
        (cg_zero_filled 0)
       = Inr (cg_zero_filled 0)
   \<and> cg_zero_filled 0 \<noteq> (cg_zero_filled 0)\<lparr>cg_status := TERMINATED\<rparr>
   \<and> cg_status (cg_zero_filled 0) = IN_PROCESS
   \<and> logregr_cg_step_merge_states ((cg_zero_filled 0)\<lparr>cg_status := TERMINATED\<rparr>)
        (cg_sample 2)
       = Inr (cg_sample 2)
   \<and> logregr_cg_step_merge_states (cg_sample 2)
        ((cg_zero_filled 0)\<lparr>cg_status := TERMINATED\<rparr>)
       = Inr (cg_sample 2)
   \<and> cg_status (cg_sample 2) = IN_PROCESS"
proof -
  have "cg_status (cg_zero_filled 0)
      \<noteq> cg_status ((cg_zero_filled 0)\<lparr>cg_status := TERMINATED\<rparr>)"
    by (simp add: cg_zero_filled_def TERMINATED_def)
  then have "cg_zero_filled 0 \<noteq> (cg_zero_filled 0)\<lparr>cg_status := TERMINATED\<rparr>"
    by metis
  then show ?thesis
    by (simp add: logregr_cg_step_transition_def uint16_max_def
        logregr_cg_step_merge_states_def cg_zero_filled_def cg_sample_def IN_PROCESS_def)
qed

text \<open>
  What the shortcut does, for every variant and every state \<open>Z\<close> with \<open>numRows = 0\<close>:
  \<open>merge(Z, A) = A\<close> for every state \<open>A\<close>, and \<open>merge(A, Z) = A\<close> for every state \<open>A\<close>
  that holds at least one row.
\<close>

lemma merge_shortcut:
  "(cg_numRows Z1 = 0 \<longrightarrow>
      logregr_cg_step_merge_states Z1 A1 = Inr A1
      \<and> (cg_numRows A1 \<noteq> 0 \<longrightarrow> logregr_cg_step_merge_states A1 Z1 = Inr A1))
   \<and> (irls_numRows Z2 = 0 \<longrightarrow>
      logregr_irls_step_merge_states Z2 A2 = Inr A2
      \<and> (irls_numRows A2 \<noteq> 0 \<longrightarrow> logregr_irls_step_merge_states A2 Z2 = Inr A2))
   \<and> (igd_numRows Z3 = 0 \<longrightarrow>
      logregr_igd_step_merge_states Z3 A3 = Inr A3
      \<and> (igd_numRows A3 \<noteq> 0 \<longrightarrow> logregr_igd_step_merge_states A3 Z3 = Inr A3))
   \<and> (robust_numRows Z4 = 0 \<longrightarrow>
      robust_logregr_step_merge_states Z4 A4 = Inr A4
      \<and> (robust_numRows A4 \<noteq> 0 \<longrightarrow> robust_logregr_step_merge_states A4 Z4 = Inr A4))
   \<and> (marginal_numRows Z5 = 0 \<longrightarrow>
      marginal_logregr_step_merge_states Z5 A5 = Inr A5
      \<and> (marginal_numRows A5 \<noteq> 0 \<longrightarrow> marginal_logregr_step_merge_states A5 Z5 = Inr A5))"
  by (simp add: logregr_cg_step_merge_states_def logregr_irls_step_merge_states_def
      logregr_igd_step_merge_states_def robust_logregr_step_merge_states_def
      marginal_logregr_step_merge_states_def)

subsection \<open>What one row adds\<close>

lemma loglik_term: "ln (1 + exp (- (y * dot x coef))) = spec_loglik_term y x coef"
  by (simp add: spec_loglik_term_def)

lemma cg_zero_filled_fields:
  "cg_widthOfX (cg_zero_filled n) = n"
  "cg_coef (cg_zero_filled n) = replicate n 0"
  "cg_X_transp_AX (cg_zero_filled n) = replicate n (replicate n 0)"
  "cg_logLikelihood (cg_zero_filled n) = 0"
  by (simp_all add: cg_zero_filled_def)

lemma cg_reset_fields:
  "cg_widthOfX (cg_reset q) = cg_widthOfX q"
  "cg_coef (cg_reset q) = cg_coef q"
  "cg_X_transp_AX (cg_reset q) = mfill0 (cg_X_transp_AX q)"
  "cg_logLikelihood (cg_reset q) = 0"
  by (simp_all add: cg_reset_def)

lemma irls_zero_filled_fields:
  "irls_widthOfX (irls_zero_filled n) = n"
  "irls_coef (irls_zero_filled n) = replicate n 0"
  "irls_X_transp_AX (irls_zero_filled n) = replicate n (replicate n 0)"
  "irls_logLikelihood (irls_zero_filled n) = 0"
  by (simp_all add: irls_zero_filled_def)

lemma irls_reset_fields:
  "irls_widthOfX (irls_reset q) = irls_widthOfX q"
  "irls_coef (irls_reset q) = irls_coef q"
  "irls_X_transp_AX (irls_reset q) = mfill0 (irls_X_transp_AX q)"
  "irls_logLikelihood (irls_reset q) = 0"
  by (simp_all add: irls_reset_def)

lemma igd_first_fields:
  "igd_widthOfX (igd_fill_coef (igd_reset q)) = igd_widthOfX q"
  "igd_stepsize (igd_fill_coef (igd_reset q)) = 1 / 100"
  "igd_coef (igd_fill_coef (igd_reset q)) = map (\<lambda>_. 1 / 10) (igd_coef q)"
  "igd_X_transp_AX (igd_fill_coef (igd_reset q)) = mfill0 (igd_X_transp_AX q)"
  "igd_logLikelihood (igd_fill_coef (igd_reset q)) = 0"
  "igd_widthOfX (igd_reset q) = igd_widthOfX q"
  "igd_X_transp_AX (igd_reset q) = mfill0 (igd_X_transp_AX q)"
  "igd_logLikelihood (igd_reset q) = 0"
  by (simp_all add: igd_fill_coef_def igd_reset_def)

lemma igd_zero_filled_fields:
  "igd_widthOfX (igd_zero_filled n) = n"
  "igd_coef (igd_zero_filled n) = replicate n 0"
  "igd_X_transp_AX (igd_zero_filled n) = replicate n (replicate n 0)"
  "igd_logLikelihood (igd_zero_filled n) = 0"
  by (simp_all add: igd_zero_filled_def)

lemma mfill0_zero: "mfill0 (replicate n (replicate n 0)) = replicate n (replicate n 0)"
  by (simp add: mfill0_def vfill0_def)

lemma cg_accumulate_adds:
  assumes "length x = cg_widthOfX s" and "exp (- (y * dot x (cg_coef s))) \<le> DBL_MAX"
  shows "\<exists>s'. cg_accumulate s y x = Inr s'
           \<and> cg_X_transp_AX s' = madd (cg_X_transp_AX s) (spec_rank_one x (cg_coef s))
           \<and> cg_logLikelihood s' = cg_logLikelihood s - spec_loglik_term y x (cg_coef s)"
  using assms by (simp add: cg_accumulate_def Let_def rank_one_update loglik_term)

lemma irls_accumulate_adds:
  assumes "length x = irls_widthOfX s" and "exp (- (y * dot x (irls_coef s))) \<le> DBL_MAX"
  shows "\<exists>s'. irls_accumulate s y x = Inr s'
           \<and> irls_X_transp_AX s' = madd (irls_X_transp_AX s) (spec_rank_one x (irls_coef s))
           \<and> irls_logLikelihood s' = irls_logLikelihood s - spec_loglik_term y x (irls_coef s)"
  using assms by (simp add: irls_accumulate_def Let_def rank_one_update loglik_term)

lemma igd_accumulate_keeps:
  assumes "length x = igd_widthOfX s" and "2 \<le> length x"
  shows "\<exists>s'. igd_accumulate s y x = Inr s'
           \<and> igd_X_transp_AX s' = igd_X_transp_AX s
           \<and> igd_logLikelihood s' = igd_logLikelihood s
           \<and> igd_coef s' =
               vadd (igd_coef s)
                 (smul (igd_stepsize s * sigma (- dot x (igd_coef s) * y) * y) x)"
  using assms by (simp add: igd_accumulate_def Let_def)

lemma exp_zero_coef: "exp (- (y * dot x (replicate n 0))) \<le> DBL_MAX"
  using DBL_MAX_ge_one by (simp add: dot_replicate_zero)

text \<open>
  Claim C3 says that in each of the three optimizers every row transition adds
  \<open>x x\<^sup>T a\<close> to the accumulated matrix and subtracts \<open>ln(1 + e\<^sup>-\<^sup>y\<^sup>x\<^sup>c)\<close> from the
  log-likelihood. The incremental-gradient transition does neither (the statements stand
  in a block that is not compiled): after a row \<open>x = [1, 2]\<close>, \<open>y = +1\<close> on a state of
  one row with coefficients zero the matrix is still zero, not
  \<open>[[1/4, 1/2], [1/2, 1]]\<close>, and the log-likelihood is still \<open>0\<close>, not \<open>- ln 2\<close>.
\<close>

theorem igd_transition_counterexample:
  "map_sum id igd_X_transp_AX (logregr_igd_step_transition igd_pair True [1, 2] Null)
     = Inr [[0, 0], [0, 0]]
   \<and> madd (igd_X_transp_AX igd_pair) (spec_rank_one [1, 2] (igd_coef igd_pair))
       = [[1 / 4, 1 / 2], [1 / 2, 1]]
   \<and> map_sum id igd_logLikelihood (logregr_igd_step_transition igd_pair True [1, 2] Null)
       = Inr 0
   \<and> igd_logLikelihood igd_pair - spec_loglik_term (label True) [1, 2] (igd_coef igd_pair)
       = - ln 2
   \<and> - ln (2::real) \<noteq> 0"
  by (simp add: logregr_igd_step_transition_def igd_accumulate_def igd_pair_def Let_def
      spec_rank_one_def spec_loglik_term_def madd_def vadd_def dot_def sigma_def label_def)

text \<open>
  Claim C3, amended. In the conjugate-gradient and the reweighted-least-squares variant,
  a row transition adds \<open>x x\<^sup>T a\<close> to the accumulated matrix and subtracts
  \<open>ln(1 + e\<^sup>-\<^sup>y\<^sup>x\<^sup>c)\<close> from the log-likelihood, where \<open>xc = x . coef\<close>,
  \<open>a = sigma(xc) sigma(-xc)\<close> and \<open>coef\<close>, the matrix and the log-likelihood are those
  of the state as the row finds it: the state itself when it holds rows, and on a first
  row the zero state (no previous state) or the previous state with matrix and
  log-likelihood reset to zero. This holds for a row as wide as the state (on a first
  row: as wide as the previous state if there is one) whose state array has a size within
  \<open>int\<close> (at most 46338 features for the conjugate gradient, 46339 for the reweighted
  least squares) and for which \<open>e\<^sup>-\<^sup>y\<^sup>x\<^sup>c\<close> is a finite double. The incremental-gradient
  transition adds nothing to the matrix and to the log-likelihood: after a row on a
  state that holds rows they are what they were, and after a first row they are zero; it
  adds \<open>stepsize sigma(-xc y) y x\<close> to the coefficients. This holds for a row as wide as
  the state, of at least two features (the transition prints two) and at most 46340.
\<close>

theorem transition_accumulates:
  "(cg_numRows s1 \<noteq> 0 \<and> length x = cg_widthOfX s1 \<and> cg_arraySize (length x) \<le> INT_MAX
      \<and> exp (- (label yb * dot x (cg_coef s1))) \<le> DBL_MAX \<longrightarrow>
      (case logregr_cg_step_transition s1 yb x p1 of
         Inl e \<Rightarrow> False
       | Inr s' \<Rightarrow>
           cg_X_transp_AX s' = madd (cg_X_transp_AX s1) (spec_rank_one x (cg_coef s1))
           \<and> cg_logLikelihood s'
               = cg_logLikelihood s1 - spec_loglik_term (label yb) x (cg_coef s1)))
   \<and> (cg_numRows s1 = 0 \<and> cg_arraySize (length x) \<le> INT_MAX \<longrightarrow>
      (case logregr_cg_step_transition s1 yb x Null of
         Inl e \<Rightarrow> False
       | Inr s' \<Rightarrow>
           cg_X_transp_AX s'
             = madd (replicate (length x) (replicate (length x) 0))
                 (spec_rank_one x (replicate (length x) 0))
           \<and> cg_logLikelihood s' = 0 - spec_loglik_term (label yb) x (replicate (length x) 0)))
   \<and> (cg_numRows s1 = 0 \<and> cg_arraySize (length x) \<le> INT_MAX \<and> cg_widthOfX q1 = length x
      \<and> exp (- (label yb * dot x (cg_coef q1))) \<le> DBL_MAX \<longrightarrow>
      (case logregr_cg_step_transition s1 yb x (Val q1) of
         Inl e \<Rightarrow> False
       | Inr s' \<Rightarrow>
           cg_X_transp_AX s' = madd (mfill0 (cg_X_transp_AX q1)) (spec_rank_one x (cg_coef q1))
           \<and> cg_logLikelihood s' = 0 - spec_loglik_term (label yb) x (cg_coef q1)))
   \<and> (irls_numRows s2 \<noteq> 0 \<and> length x = irls_widthOfX s2
      \<and> irls_arraySize (length x) \<le> INT_MAX
      \<and> exp (- (label yb * dot x (irls_coef s2))) \<le> DBL_MAX \<longrightarrow>
      (case logregr_irls_step_transition s2 yb x p2 of
         Inl e \<Rightarrow> False
       | Inr s' \<Rightarrow>
           irls_X_transp_AX s' = madd (irls_X_transp_AX s2) (spec_rank_one x (irls_coef s2))
           \<and> irls_logLikelihood s'
               = irls_logLikelihood s2 - spec_loglik_term (label yb) x (irls_coef s2)))
   \<and> (irls_numRows s2 = 0 \<and> irls_arraySize (length x) \<le> INT_MAX \<longrightarrow>
      (case logregr_irls_step_transition s2 yb x Null of
         Inl e \<Rightarrow> False
       | Inr s' \<Rightarrow>
           irls_X_transp_AX s'
             = madd (replicate (length x) (replicate (length x) 0))
                 (spec_rank_one x (replicate (length x) 0))
           \<and> irls_logLikelihood s'
               = 0 - spec_loglik_term (label yb) x (replicate (length x) 0)))
   \<and> (irls_numRows s2 = 0 \<and> irls_arraySize (length x) \<le> INT_MAX
      \<and> irls_widthOfX q2 = length x
      \<and> exp (- (label yb * dot x (irls_coef q2))) \<le> DBL_MAX \<longrightarrow>
      (case logregr_irls_step_transition s2 yb x (Val q2) of
         Inl e \<Rightarrow> False
       | Inr s' \<Rightarrow>
           irls_X_transp_AX s'
             = madd (mfill0 (irls_X_transp_AX q2)) (spec_rank_one x (irls_coef q2))
           \<and> irls_logLikelihood s' = 0 - spec_loglik_term (label yb) x (irls_coef q2)))
   \<and> (igd_numRows s3 \<noteq> 0 \<and> length x = igd_widthOfX s3 \<and> 2 \<le> length x
      \<and> igd_arraySize (length x) \<le> INT_MAX \<longrightarrow>
      (case logregr_igd_step_transition s3 yb x p3 of
         Inl e \<Rightarrow> False
       | Inr s' \<Rightarrow>
           igd_X_transp_AX s' = igd_X_transp_AX s3
           \<and> igd_logLikelihood s' = igd_logLikelihood s3
           \<and> igd_coef s' =
               vadd (igd_coef s3)
                 (smul (igd_stepsize s3 * sigma (- dot x (igd_coef s3) * label yb) * label yb)
                    x)))
   \<and> (igd_numRows s3 = 0 \<and> 2 \<le> length x \<and> igd_arraySize (length x) \<le> INT_MAX \<longrightarrow>
      (case logregr_igd_step_transition s3 yb x Null of
         Inl e \<Rightarrow> False
       | Inr s' \<Rightarrow>
           igd_X_transp_AX s' = replicate (length x) (replicate (length x) 0)
           \<and> igd_logLikelihood s' = 0))
   \<and> (igd_numRows s3 = 0 \<and> 2 \<le> length x \<and> igd_arraySize (length x) \<le> INT_MAX
      \<and> igd_widthOfX q3 = length x \<longrightarrow>
      (case logregr_igd_step_transition s3 yb x (Val q3) of
         Inl e \<Rightarrow> False
       | Inr s' \<Rightarrow>
           igd_X_transp_AX s' = mfill0 (igd_X_transp_AX q3)
           \<and> igd_logLikelihood s' = 0
           \<and> igd_coef s' =
               vadd (igd_coef q3)
                 (smul (1 / 100 * sigma (- dot x (igd_coef q3) * label yb) * label yb) x)))"
proof (intro conjI impI)
  assume "cg_numRows s1 \<noteq> 0 \<and> length x = cg_widthOfX s1 \<and> cg_arraySize (length x) \<le> INT_MAX
      \<and> exp (- (label yb * dot x (cg_coef s1))) \<le> DBL_MAX"
  then show "case logregr_cg_step_transition s1 yb x p1 of
         Inl e \<Rightarrow> False
       | Inr s' \<Rightarrow>
           cg_X_transp_AX s' = madd (cg_X_transp_AX s1) (spec_rank_one x (cg_coef s1))
           \<and> cg_logLikelihood s'
               = cg_logLikelihood s1 - spec_loglik_term (label yb) x (cg_coef s1)"
    using cg_accumulate_adds [of x s1 "label yb"]
    by (auto simp: logregr_cg_step_transition_def)
next
  assume h: "cg_numRows s1 = 0 \<and> cg_arraySize (length x) \<le> INT_MAX"
  then show "case logregr_cg_step_transition s1 yb x Null of
         Inl e \<Rightarrow> False
       | Inr s' \<Rightarrow>
           cg_X_transp_AX s'
             = madd (replicate (length x) (replicate (length x) 0))
                 (spec_rank_one x (replicate (length x) 0))
           \<and> cg_logLikelihood s' = 0 - spec_loglik_term (label yb) x (replicate (length x) 0)"
    using cg_accumulate_adds [of x "cg_zero_filled (length x)" "label yb"]
      cg_initialize_ok [of "length x"] exp_zero_coef [of "label yb" x "length x"]
    by (auto simp: logregr_cg_step_transition_def cg_zero_filled_fields)
next
  assume "cg_numRows s1 = 0 \<and> cg_arraySize (length x) \<le> INT_MAX \<and> cg_widthOfX q1 = length x
      \<and> exp (- (label yb * dot x (cg_coef q1))) \<le> DBL_MAX"
  then show "case logregr_cg_step_transition s1 yb x (Val q1) of
         Inl e \<Rightarrow> False
       | Inr s' \<Rightarrow>
           cg_X_transp_AX s' = madd (mfill0 (cg_X_transp_AX q1)) (spec_rank_one x (cg_coef q1))
           \<and> cg_logLikelihood s' = 0 - spec_loglik_term (label yb) x (cg_coef q1)"
    using cg_accumulate_adds [of x "cg_reset q1" "label yb"] cg_initialize_ok [of "length x"]
    by (auto simp: logregr_cg_step_transition_def cg_assign_def cg_reset_fields)
next
  assume "irls_numRows s2 \<noteq> 0 \<and> length x = irls_widthOfX s2
      \<and> irls_arraySize (length x) \<le> INT_MAX
      \<and> exp (- (label yb * dot x (irls_coef s2))) \<le> DBL_MAX"
  then show "case logregr_irls_step_transition s2 yb x p2 of
         Inl e \<Rightarrow> False
       | Inr s' \<Rightarrow>
           irls_X_transp_AX s' = madd (irls_X_transp_AX s2) (spec_rank_one x (irls_coef s2))
           \<and> irls_logLikelihood s'
               = irls_logLikelihood s2 - spec_loglik_term (label yb) x (irls_coef s2)"
    using irls_accumulate_adds [of x s2 "label yb"]
    by (auto simp: logregr_irls_step_transition_def)
next
  assume "irls_numRows s2 = 0 \<and> irls_arraySize (length x) \<le> INT_MAX"
  then show "case logregr_irls_step_transition s2 yb x Null of
         Inl e \<Rightarrow> False
       | Inr s' \<Rightarrow>
           irls_X_transp_AX s'
             = madd (replicate (length x) (replicate (length x) 0))
                 (spec_rank_one x (replicate (length x) 0))
           \<and> irls_logLikelihood s'
               = 0 - spec_loglik_term (label yb) x (replicate (length x) 0)"
    using irls_accumulate_adds [of x "irls_zero_filled (length x)" "label yb"]
      irls_initialize_ok [of "length x"] exp_zero_coef [of "label yb" x "length x"]
    by (auto simp: logregr_irls_step_transition_def irls_zero_filled_fields)
next
  assume "irls_numRows s2 = 0 \<and> irls_arraySize (length x) \<le> INT_MAX
      \<and> irls_widthOfX q2 = length x
      \<and> exp (- (label yb * dot x (irls_coef q2))) \<le> DBL_MAX"
  then show "case logregr_irls_step_transition s2 yb x (Val q2) of
         Inl e \<Rightarrow> False
       | Inr s' \<Rightarrow>
           irls_X_transp_AX s'
             = madd (mfill0 (irls_X_transp_AX q2)) (spec_rank_one x (irls_coef q2))
           \<and> irls_logLikelihood s' = 0 - spec_loglik_term (label yb) x (irls_coef q2)"
    using irls_accumulate_adds [of x "irls_reset q2" "label yb"]
      irls_initialize_ok [of "length x"]
    by (auto simp: logregr_irls_step_transition_def irls_assign_def irls_reset_fields)
next
  assume "igd_numRows s3 \<noteq> 0 \<and> length x = igd_widthOfX s3 \<and> 2 \<le> length x
      \<and> igd_arraySize (length x) \<le> INT_MAX"
  then show "case logregr_igd_step_transition s3 yb x p3 of
         Inl e \<Rightarrow> False
       | Inr s' \<Rightarrow>
           igd_X_transp_AX s' = igd_X_transp_AX s3
           \<and> igd_logLikelihood s' = igd_logLikelihood s3
           \<and> igd_coef s' =
               vadd (igd_coef s3)
                 (smul (igd_stepsize s3 * sigma (- dot x (igd_coef s3) * label yb) * label yb)
                    x)"
    using igd_accumulate_keeps [of x s3 "label yb"]
    by (auto simp: logregr_igd_step_transition_def)
next
  assume "igd_numRows s3 = 0 \<and> 2 \<le> length x \<and> igd_arraySize (length x) \<le> INT_MAX"
  then show "case logregr_igd_step_transition s3 yb x Null of
         Inl e \<Rightarrow> False
       | Inr s' \<Rightarrow>
           igd_X_transp_AX s' = replicate (length x) (replicate (length x) 0)
           \<and> igd_logLikelihood s' = 0"
    using igd_accumulate_keeps
        [of x "igd_fill_coef (igd_reset (igd_zero_filled (length x)))" "label yb"]
      igd_initialize_ok [of "length x"]
    by (auto simp: logregr_igd_step_transition_def igd_first_fields igd_zero_filled_fields
        mfill0_zero)
next
  assume "igd_numRows s3 = 0 \<and> 2 \<le> length x \<and> igd_arraySize (length x) \<le> INT_MAX
      \<and> igd_widthOfX q3 = length x"
  then show "case logregr_igd_step_transition s3 yb x (Val q3) of
         Inl e \<Rightarrow> False
       | Inr s' \<Rightarrow>
           igd_X_transp_AX s' = mfill0 (igd_X_transp_AX q3)
           \<and> igd_logLikelihood s' = 0
           \<and> igd_coef s' =
               vadd (igd_coef q3)
                 (smul (1 / 100 * sigma (- dot x (igd_coef q3) * label yb) * label yb) x)"
    using igd_accumulate_keeps [of x "igd_reset q3" "label yb"]
      igd_initialize_ok [of "length x"]
    by (auto simp: logregr_igd_step_transition_def igd_assign_def igd_first_fields
        igd_reset_def)
qed

theorem transition_accumulates_witness:
  "map_sum id cg_X_transp_AX (logregr_cg_step_transition cg_scenario False [2, 0] Null)
     = Inr [[5 / 4, 1 / 2], [1 / 2, 1]]
   \<and> map_sum id cg_logLikelihood (logregr_cg_step_transition cg_scenario False [2, 0] Null)
     = Inr (- ln 2 - ln 2)
   \<and> map_sum id irls_X_transp_AX
       (logregr_irls_step_transition (irls_zero_filled 0) True [2] (Val (irls_sample 3)))
     = Inr [[1]]
   \<and> map_sum id igd_logLikelihood (logregr_igd_step_transition igd_pair True [1, 2] Null)
     = Inr 0
   \<and> map_sum id igd_X_transp_AX
       (logregr_igd_step_transition (igd_zero_filled 0) True [1, 2] Null)
     = Inr [[0, 0], [0, 0]]"
proof -
  have h1: "cg_numRows cg_scenario \<noteq> 0 \<and> length [2, 0 :: real] = cg_widthOfX cg_scenario
      \<and> cg_arraySize (length [2, 0 :: real]) \<le> INT_MAX
      \<and> exp (- (label False * dot [2, 0] (cg_coef cg_scenario))) \<le> DBL_MAX"
    using DBL_MAX_ge_one
    by (simp add: cg_scenario_def cg_arraySize_def INT_MAX_def dot_def)
  have h2: "irls_numRows (irls_zero_filled 0) = 0
      \<and> irls_arraySize (length [2 :: real]) \<le> INT_MAX
      \<and> irls_widthOfX (irls_sample 3) = length [2 :: real]
      \<and> exp (- (label True * dot [2] (irls_coef (irls_sample 3)))) \<le> DBL_MAX"
    using DBL_MAX_ge_one
    by (simp add: irls_zero_filled_def irls_sample_def irls_arraySize_def INT_MAX_def dot_def)
  have h3: "igd_numRows igd_pair \<noteq> 0 \<and> length [1, 2 :: real] = igd_widthOfX igd_pair
      \<and> 2 \<le> length [1, 2 :: real] \<and> igd_arraySize (length [1, 2 :: real]) \<le> INT_MAX"
    by (simp add: igd_pair_def igd_arraySize_def INT_MAX_def)
  have h4: "igd_numRows (igd_zero_filled 0) = 0 \<and> 2 \<le> length [1, 2 :: real]
      \<and> igd_arraySize (length [1, 2 :: real]) \<le> INT_MAX"
    by (simp add: igd_zero_filled_def igd_arraySize_def INT_MAX_def)
  have v1: "madd (cg_X_transp_AX cg_scenario) (spec_rank_one [2, 0] (cg_coef cg_scenario))
              = [[5 / 4, 1 / 2], [1 / 2, 1]]"
    "cg_logLikelihood cg_scenario - spec_loglik_term (label False) [2, 0] (cg_coef cg_scenario)
       = - ln 2 - ln 2"
    by (simp_all add: cg_scenario_def spec_rank_one_def spec_loglik_term_def madd_def vadd_def
        dot_def sigma_def label_def)
  have v2: "madd (mfill0 (irls_X_transp_AX (irls_sample 3)))
              (spec_rank_one [2] (irls_coef (irls_sample 3))) = [[1]]"
    by (simp add: irls_sample_def spec_rank_one_def madd_def vadd_def mfill0_def vfill0_def
        dot_def sigma_def)
  have v3: "igd_logLikelihood igd_pair = 0"
    by (simp add: igd_pair_def)
  have v4: "replicate (length [1, 2 :: real]) (replicate (length [1, 2 :: real]) (0 :: real))
      = [[0, 0], [0, 0]]"
    by (simp add: numeral_2_eq_2)
  have c1: "case logregr_cg_step_transition cg_scenario False [2, 0] Null of
         Inl e \<Rightarrow> False
       | Inr s' \<Rightarrow>
           cg_X_transp_AX s'
             = madd (cg_X_transp_AX cg_scenario) (spec_rank_one [2, 0] (cg_coef cg_scenario))
           \<and> cg_logLikelihood s'
               = cg_logLikelihood cg_scenario
                   - spec_loglik_term (label False) [2, 0] (cg_coef cg_scenario)"
    by (rule transition_accumulates [where ?s1.0 = cg_scenario and x = "[2, 0]" and yb = False
          and ?p1.0 = Null, THEN conjunct1, THEN mp, OF h1])
  have c2: "case logregr_irls_step_transition (irls_zero_filled 0) True [2]
                 (Val (irls_sample 3)) of
         Inl e \<Rightarrow> False
       | Inr s' \<Rightarrow>
           irls_X_transp_AX s'
             = madd (mfill0 (irls_X_transp_AX (irls_sample 3)))
                 (spec_rank_one [2] (irls_coef (irls_sample 3)))
           \<and> irls_logLikelihood s'
               = 0 - spec_loglik_term (label True) [2] (irls_coef (irls_sample 3))"
    by (rule transition_accumulates [where ?s2.0 = "irls_zero_filled 0" and x = "[2]"
          and yb = True and ?q2.0 = "irls_sample 3", THEN conjunct2, THEN conjunct2,
          THEN conjunct2, THEN conjunct2, THEN conjunct2, THEN conjunct1, THEN mp, OF h2])
  have c3: "case logregr_igd_step_transition igd_pair True [1, 2] Null of
         Inl e \<Rightarrow> False
       | Inr s' \<Rightarrow>
           igd_X_transp_AX s' = igd_X_transp_AX igd_pair
           \<and> igd_logLikelihood s' = igd_logLikelihood igd_pair
           \<and> igd_coef s' =
               vadd (igd_coef igd_pair)
                 (smul (igd_stepsize igd_pair
                          * sigma (- dot [1, 2] (igd_coef igd_pair) * label True)
                          * label True)
                    [1, 2])"
    by (rule transition_accumulates [where ?s3.0 = igd_pair and x = "[1, 2]" and yb = True
          and ?p3.0 = Null, THEN conjunct2, THEN conjunct2, THEN conjunct2, THEN conjunct2,
          THEN conjunct2, THEN conjunct2, THEN conjunct1, THEN mp, OF h3])
  have c4: "case logregr_igd_step_transition (igd_zero_filled 0) True [1, 2] Null of
         Inl e \<Rightarrow> False
       | Inr s' \<Rightarrow>
           igd_X_transp_AX s'
             = replicate (length [1, 2 :: real]) (replicate (length [1, 2 :: real]) 0)
           \<and> igd_logLikelihood s' = 0"
    by (rule transition_accumulates [where ?s3.0 = "igd_zero_filled 0" and x = "[1, 2]"
          and yb = True, THEN conjunct2, THEN conjunct2, THEN conjunct2, THEN conjunct2,
          THEN conjunct2, THEN conjunct2, THEN conjunct2, THEN conjunct1, THEN mp, OF h4])
  from c1 v1 have "map_sum id cg_X_transp_AX
        (logregr_cg_step_transition cg_scenario False [2, 0] Null)
       = Inr [[5 / 4, 1 / 2], [1 / 2, 1]]"
    and "map_sum id cg_logLikelihood (logregr_cg_step_transition cg_scenario False [2, 0] Null)
       = Inr (- ln 2 - ln 2)"
    by (auto split: sum.splits)
  moreover from c2 v2 have "map_sum id irls_X_transp_AX
       (logregr_irls_step_transition (irls_zero_filled 0) True [2] (Val (irls_sample 3)))
     = Inr [[1]]"
    by (auto split: sum.splits)
  moreover from c3 v3 have "map_sum id igd_logLikelihood
       (logregr_igd_step_transition igd_pair True [1, 2] Null) = Inr 0"
    by (auto split: sum.splits)
  moreover from c4 have "map_sum id igd_X_transp_AX
       (logregr_igd_step_transition (igd_zero_filled 0) True [1, 2] Null)
     = Inr [[0, 0], [0, 0]]"
    unfolding v4 by (auto split: sum.splits)
  ultimately show ?thesis by simp
qed

subsection \<open>The first row of the incremental gradient\<close>

text \<open>
  Claim C10. On the first transition of a first iteration (\<open>numRows = 0\<close>, no previous
  state) the incremental-gradient transition allots the zero state, sets every coefficient
  to \<open>0.1\<close> and then applies the gradient step: the coefficients after the row are
  \<open>0.1 + stepsize sigma(-xc y) y x\<^sub>i\<close> with \<open>xc = x . (0.1, ..., 0.1)\<close> and
  \<open>stepsize = 0.01\<close>. This holds for a row whose state array has a size within \<open>int\<close>
  (at most 46340 features) and that has the two features that the transition prints.
\<close>

theorem igd_first_row:
  assumes "igd_numRows st = 0" and "2 \<le> length x"
    and "igd_arraySize (length x) \<le> INT_MAX"
  shows "igd_initialize (length x) = Inr (igd_zero_filled (length x))
    \<and> igd_coef (igd_zero_filled (length x)) = replicate (length x) 0
    \<and> igd_coef (igd_fill_coef (igd_reset (igd_zero_filled (length x))))
        = replicate (length x) (1 / 10)
    \<and> logregr_igd_step_transition st yb x Null
        = igd_accumulate (igd_fill_coef (igd_reset (igd_zero_filled (length x)))) (label yb) x
    \<and> map_sum id igd_coef (logregr_igd_step_transition st yb x Null)
        = Inr (vadd (replicate (length x) (1 / 10))
                 (smul (1 / 100 * sigma (- dot x (replicate (length x) (1 / 10)) * label yb)
                          * label yb)
                    x))"
  using assms igd_initialize_ok [of "length x"]
  by (simp add: logregr_igd_step_transition_def igd_fill_coef_def igd_reset_def
      igd_zero_filled_def igd_accumulate_def Let_def map_replicate_const)

theorem igd_first_row_witness:
  "map_sum id igd_coef (logregr_igd_step_transition (igd_zero_filled 0) True [1, 2] Null)
     = Inr [1 / 10 + sigma (- (3 / 10)) / 100, 1 / 10 + sigma (- (3 / 10)) / 50]"
proof -
  have h: "igd_numRows (igd_zero_filled 0) = 0" "2 \<le> length [1, 2 :: real]"
    "igd_arraySize (length [1, 2 :: real]) \<le> INT_MAX"
    by (simp_all add: igd_zero_filled_def igd_arraySize_def INT_MAX_def)
  have v: "vadd (replicate (length [1, 2 :: real]) (1 / 10))
             (smul (1 / 100 * sigma (- dot [1, 2] (replicate (length [1, 2 :: real]) (1 / 10))
                      * label True) * label True) [1, 2])
           = [1 / 10 + sigma (- (3 / 10)) / 100, 1 / 10 + sigma (- (3 / 10)) / 50]"
    by (simp add: vadd_def smul_def dot_def label_def eval_nat_numeral)
  from igd_first_row [OF h, of True]
  have "map_sum id igd_coef (logregr_igd_step_transition (igd_zero_filled 0) True [1, 2] Null)
      = Inr (vadd (replicate (length [1, 2 :: real]) (1 / 10))
               (smul (1 / 100 * sigma (- dot [1, 2] (replicate (length [1, 2 :: real]) (1 / 10))
                        * label True) * label True) [1, 2]))"
    by blast
  then show ?thesis by (simp only: v)
qed

subsection \<open>p-values of the marginal effects\<close>

lemma marginalstateToResult_eq:
  assumes "n \<noteq> 0" and "\<forall>i<length c. 0 < d ! i"
  shows "marginalstateToResult lib c d m n =
     Inr \<lparr>mres_marginal_effects = map (\<lambda>i. c ! i * m / n) [0..<length c],
          mres_coef = c,
          mres_stdErr = map (\<lambda>i. sqrt (d ! i)) [0..<length c],
          mres_tStats = map (\<lambda>i. c ! i * m / n / sqrt (d ! i)) [0..<length c],
          mres_pValues =
            (if n > real (length c)
             then Val (map (\<lambda>i. 2 * students_t_complement_cdf lib (n - real (length c))
                                   \<bar>c ! i * m / n / sqrt (d ! i)\<bar>)
                         [0..<length c])
             else Null)\<rparr>"
proof -
  have ok: "\<not> list_ex (\<lambda>i. n = 0 \<or> d ! i \<le> 0) [0..<length c]"
    using assms by (auto simp: list_ex_iff)
  have c: "map (\<lambda>i. c ! i) [0..<length c] = c"
    by (rule map_nth)
  show ?thesis
    using ok c by (simp add: marginalstateToResult_def Let_def)
qed

text \<open>
  Claim C9. On a state with rows the final function of the marginal effects returns, for
  each coefficient \<open>c\<^sub>i\<close>, the marginal effect \<open>c\<^sub>i m / numRows\<close> (\<open>m\<close> the accumulated
  effect per observation), the standard error \<open>sqrt(d\<^sub>i)\<close> (\<open>d\<close> the diagonal of the
  delta-method matrix) and their quotient as t-statistic. It carries no p-values when
  \<open>numRows \<le> widthOfX\<close>, and when \<open>numRows > widthOfX\<close> it carries, for each
  t-statistic \<open>t\<close>, twice the upper tail at \<open>|t|\<close> of Student's t distribution with
  \<open>numRows - widthOfX\<close> degrees of freedom; with \<open>numRows = widthOfX\<close> they are absent
  and with \<open>numRows = widthOfX + 1\<close> they are present with one degree of freedom. (The
  coefficient vector of a state has \<open>widthOfX\<close> entries; the diagonal entries are taken
  to be positive and \<open>e\<^sup>x\<^sup>c\<close> at the mean row to be a finite double, so that every
  statistic is a finite number.)
\<close>

theorem marginal_pValues_threshold:
  assumes "marginal_numRows st \<noteq> 0"
    and "length (marginal_coef st) = marginal_widthOfX st"
    and "exp (dot (marginal_coef st) (marginal_X_bar st) / real (marginal_numRows st))
           \<le> DBL_MAX"
    and "\<forall>i<marginal_widthOfX st. 0 < diagonal (marginal_std_err lib st) ! i"
  shows "\<exists>r. marginal_logregr_step_final lib st = Val (Inr r)
      \<and> mres_coef r = marginal_coef st
      \<and> mres_marginal_effects r =
          map (\<lambda>i. marginal_coef st ! i * marginal_effects_per_observation st
                      / real (marginal_numRows st))
            [0..<marginal_widthOfX st]
      \<and> mres_stdErr r =
          map (\<lambda>i. sqrt (diagonal (marginal_std_err lib st) ! i)) [0..<marginal_widthOfX st]
      \<and> mres_tStats r =
          map (\<lambda>i. marginal_coef st ! i * marginal_effects_per_observation st
                      / real (marginal_numRows st)
                      / sqrt (diagonal (marginal_std_err lib st) ! i))
            [0..<marginal_widthOfX st]
      \<and> (marginal_numRows st \<le> marginal_widthOfX st \<longrightarrow> mres_pValues r = Null)
      \<and> (marginal_numRows st > marginal_widthOfX st \<longrightarrow>
          mres_pValues r =
            Val (map (\<lambda>i. 2 * students_t_complement_cdf lib
                               (real (marginal_numRows st - marginal_widthOfX st))
                               \<bar>mres_tStats r ! i\<bar>)
                   [0..<marginal_widthOfX st]))
      \<and> (marginal_numRows st = marginal_widthOfX st + 1 \<longrightarrow>
          mres_pValues r =
            Val (map (\<lambda>i. 2 * students_t_complement_cdf lib 1 \<bar>mres_tStats r ! i\<bar>)
                   [0..<marginal_widthOfX st]))"
proof -
  let ?c = "marginal_coef st" and ?d = "diagonal (marginal_std_err lib st)"
  let ?m = "marginal_effects_per_observation st" and ?n = "real (marginal_numRows st)"
  let ?w = "marginal_widthOfX st"
  let ?t = "map (\<lambda>i. ?c ! i * ?m / ?n / sqrt (?d ! i)) [0..<?w]"
  let ?p = "if marginal_numRows st > ?w
            then Val (map (\<lambda>i. 2 * students_t_complement_cdf lib
                                  (real (marginal_numRows st - ?w))
                                  \<bar>?c ! i * ?m / ?n / sqrt (?d ! i)\<bar>) [0..<?w])
            else Null"
  let ?r = "\<lparr>mres_marginal_effects = map (\<lambda>i. ?c ! i * ?m / ?n) [0..<?w], mres_coef = ?c,
             mres_stdErr = map (\<lambda>i. sqrt (?d ! i)) [0..<?w], mres_tStats = ?t,
             mres_pValues = ?p\<rparr>"
  have n: "?n \<noteq> 0" using assms(1) by simp
  have d: "\<forall>i<length ?c. 0 < ?d ! i" using assms(2,4) by simp
  have f: "marginal_logregr_step_final lib st = Val (Inr ?r)"
    using assms(1,3)
    by (simp add: marginal_logregr_step_final_def marginalstateToResult_eq [OF n d] assms(2)
        of_nat_diff)
  have t: "map (\<lambda>i. 2 * students_t_complement_cdf lib k \<bar>?c ! i * ?m / ?n / sqrt (?d ! i)\<bar>)
             [0..<?w]
           = map (\<lambda>i. 2 * students_t_complement_cdf lib k \<bar>?t ! i\<bar>) [0..<?w]" for k
    by simp
  have a: "marginal_numRows st \<le> ?w \<longrightarrow> ?p = Null" by simp
  have b: "marginal_numRows st > ?w \<longrightarrow>
      ?p = Val (map (\<lambda>i. 2 * students_t_complement_cdf lib (real (marginal_numRows st - ?w))
                            \<bar>?t ! i\<bar>) [0..<?w])"
    by (simp only: t) simp
  have c: "marginal_numRows st = ?w + 1 \<longrightarrow>
      ?p = Val (map (\<lambda>i. 2 * students_t_complement_cdf lib 1 \<bar>?t ! i\<bar>) [0..<?w])"
  proof
    assume e: "marginal_numRows st = ?w + 1"
    then have g: "marginal_numRows st > ?w"
      and d1: "real (marginal_numRows st - ?w) = 1"
      by simp_all
    from b g have "?p = Val (map (\<lambda>i. 2 * students_t_complement_cdf lib
                                         (real (marginal_numRows st - ?w)) \<bar>?t ! i\<bar>) [0..<?w])"
      by blast
    then show "?p = Val (map (\<lambda>i. 2 * students_t_complement_cdf lib 1 \<bar>?t ! i\<bar>) [0..<?w])"
      by (simp only: d1)
  qed
  have "mres_coef ?r = ?c"
    and "mres_marginal_effects ?r = map (\<lambda>i. ?c ! i * ?m / ?n) [0..<?w]"
    and "mres_stdErr ?r = map (\<lambda>i. sqrt (?d ! i)) [0..<?w]"
    and "mres_tStats ?r = ?t" and "mres_pValues ?r = ?p"
    by simp_all
  with f a b c show ?thesis by (intro exI [of _ ?r]) (simp only: simp_thms)
qed

lemma marginal_example_std_err:
  "marginal_std_err sample_library (marginal_example k) = [[1 / 4]]"
  by (simp add: marginal_std_err_def marginal_example_def sample_library_def
      diag_pseudoInverse_def dot_def smul_def outer_def mdiv_def add_identity_def mscale_def
      mmul_def vecmat_def column_def ncols_def mtrans_def Let_def)

theorem marginal_pValues_threshold_witness:
  "(case marginal_logregr_step_final sample_library (marginal_example 1) of
      Val (Inr r) \<Rightarrow> mres_pValues r = Null \<and> mres_tStats r = [2 * (1 / 4) / 1 / sqrt (1 / 4)]
    | _ \<Rightarrow> False)
   \<and> (case marginal_logregr_step_final sample_library (marginal_example 2) of
        Val (Inr r) \<Rightarrow>
          mres_pValues r =
            Val [2 * students_t_complement_cdf sample_library 1
                       \<bar>2 * (1 / 4) / 2 / sqrt (1 / 4)\<bar>]
      | _ \<Rightarrow> False)"
proof -
  have h: "marginal_numRows (marginal_example 1) \<noteq> 0"
    "marginal_numRows (marginal_example 2) \<noteq> 0"
    by (simp_all add: marginal_example_def)
  have l: "length (marginal_coef (marginal_example k)) = marginal_widthOfX (marginal_example k)"
    for k
    by (simp add: marginal_example_def)
  have e: "exp (dot (marginal_coef (marginal_example k)) (marginal_X_bar (marginal_example k))
                  / real (marginal_numRows (marginal_example k))) \<le> DBL_MAX" for k
    using DBL_MAX_ge_one by (simp add: marginal_example_def dot_def)
  have d: "\<forall>i<marginal_widthOfX (marginal_example k).
              0 < diagonal (marginal_std_err sample_library (marginal_example k)) ! i" for k
    by (simp add: marginal_example_std_err diagonal_def) (simp add: marginal_example_def)
  have v: "marginal_widthOfX (marginal_example k) = 1" "marginal_numRows (marginal_example k) = k"
    "marginal_coef (marginal_example k) = [2]"
    "marginal_effects_per_observation (marginal_example k) = 1 / 4"
    "diagonal (marginal_std_err sample_library (marginal_example k)) = [1 / 4]" for k
    by (simp_all add: marginal_example_std_err diagonal_def) (simp_all add: marginal_example_def)
  from marginal_pValues_threshold [OF h(1) l e d]
  have a: "case marginal_logregr_step_final sample_library (marginal_example 1) of
      Val (Inr r) \<Rightarrow> mres_pValues r = Null \<and> mres_tStats r = [2 * (1 / 4) / 1 / sqrt (1 / 4)]
    | _ \<Rightarrow> False"
    by (auto simp: v)
  from marginal_pValues_threshold [OF h(2) l e d]
  have b: "case marginal_logregr_step_final sample_library (marginal_example 2) of
        Val (Inr r) \<Rightarrow>
          mres_pValues r =
            Val [2 * students_t_complement_cdf sample_library 1
                       \<bar>2 * (1 / 4) / 2 / sqrt (1 / 4)\<bar>]
      | _ \<Rightarrow> False"
    by (auto simp: v)
  from a b show ?thesis by simp
qed

subsection \<open>The conjugate-gradient step\<close>

lemma cg_scenario_transition:
  "logregr_cg_step_transition (cg_zero_filled 0) True [1, 2] Null = Inr cg_scenario"
  using DBL_MAX_ge_one
  by (simp add: logregr_cg_step_transition_def cg_initialize_def cg_arraySize_def INT_MAX_def
      cg_zero_filled_def cg_accumulate_def uint16_max_def label_def sigma_def cg_scenario_def
      dot_def vadd_def smul_def madd_def mscale_def outer_def Let_def)

lemma cg_scenario_final:
  "logregr_cg_step_final cg_scenario =
     Val (Inr (cg_scenario\<lparr>cg_dir := [1 / 2, 1], cg_grad := [1 / 2, 1],
                 cg_coef := [2 / 5, 4 / 5], cg_iteration := 1\<rparr>))"
  by (simp add: logregr_cg_step_final_def cg_update_coef_def cg_scenario_def dot_def vadd_def
      smul_def vecmat_def column_def ncols_def Let_def)

text \<open>With a zero denominator the step is no finite number: at iteration 0 when the
  gradient is zero, and later when the new direction is.\<close>

lemma cg_final_not_finite:
  "logregr_cg_step_final ((cg_sample 2)\<lparr>cg_gradNew := [0]\<rparr>) = Val (Inl NonFinite)"
  "logregr_cg_step_final
     ((cg_sample 2)\<lparr>cg_iteration := 1, cg_dir := [1], cg_grad := [0], cg_gradNew := [1]\<rparr>)
     = Val (Inl NonFinite)"
  by (simp_all add: logregr_cg_step_final_def cg_update_coef_def quotient_le_def cg_sample_def
      dot_def vsub_def smul_def vecmat_def column_def ncols_def Let_def)

lemma denorm_min_small: "denorm_min \<le> 1 / 4"
proof -
  have "(2::real) ^ 2 \<le> 2 ^ 1074"
    by (rule power_increasing) simp_all
  then have "(4::real) \<le> 2 ^ 1074" by simp
  then have "1 / (2::real) ^ 1074 \<le> 1 / 4"
    by (simp add: field_simps)
  then show ?thesis by (simp add: denorm_min_def)
qed

lemma cg_final_first:
  assumes "cg_numRows st \<noteq> 0" and "cg_iteration st = 0"
    and "dot (vecmat (cg_gradNew st) (cg_X_transp_AX st)) (cg_gradNew st) \<noteq> 0"
  shows "logregr_cg_step_final st =
     Val (Inr (st\<lparr>cg_dir := cg_gradNew st, cg_grad := cg_gradNew st,
                 cg_coef :=
                   vadd (cg_coef st)
                     (smul (dot (cg_gradNew st) (cg_gradNew st)
                              / dot (vecmat (cg_gradNew st) (cg_X_transp_AX st)) (cg_gradNew st))
                        (cg_gradNew st)),
                 cg_iteration := 1\<rparr>))"
  using assms by (simp add: logregr_cg_step_final_def cg_update_coef_def Let_def)

lemma cg_final_later:
  assumes "cg_numRows st \<noteq> 0" and "cg_iteration st \<noteq> 0"
    and "dot (cg_grad st) (cg_grad st) \<noteq> 0"
    and "dot (cg_gradNew st) (vsub (cg_gradNew st) (cg_grad st)) / dot (cg_grad st) (cg_grad st)
           \<le> denorm_min
         \<or> dot (cg_dir st) (vsub (cg_gradNew st) (cg_grad st)) \<noteq> 0"
    and "dot (vecmat (vsub (cg_gradNew st) (smul (spec_cg_beta st) (cg_dir st)))
                 (cg_X_transp_AX st))
           (vsub (cg_gradNew st) (smul (spec_cg_beta st) (cg_dir st))) \<noteq> 0"
  shows "logregr_cg_step_final st =
     Val (Inr (st\<lparr>cg_beta := spec_cg_beta st,
                 cg_dir := vsub (cg_gradNew st) (smul (spec_cg_beta st) (cg_dir st)),
                 cg_grad := cg_gradNew st,
                 cg_coef :=
                   vadd (cg_coef st)
                     (smul (dot (cg_gradNew st)
                                (vsub (cg_gradNew st) (smul (spec_cg_beta st) (cg_dir st)))
                              / dot (vecmat (vsub (cg_gradNew st)
                                               (smul (spec_cg_beta st) (cg_dir st)))
                                       (cg_X_transp_AX st))
                                  (vsub (cg_gradNew st) (smul (spec_cg_beta st) (cg_dir st))))
                        (vsub (cg_gradNew st) (smul (spec_cg_beta st) (cg_dir st)))),
                 cg_iteration := cg_iteration st + 1\<rparr>))"
proof (cases "dot (cg_gradNew st) (vsub (cg_gradNew st) (cg_grad st))
                / dot (cg_grad st) (cg_grad st) \<le> denorm_min")
  case True
  then have b: "spec_cg_beta st = 0" by (simp add: spec_cg_beta_def)
  from True assms(3) have r: "quotient_le (dot (cg_gradNew st) (vsub (cg_gradNew st) (cg_grad st)))
      (dot (cg_grad st) (cg_grad st)) denorm_min"
    by (simp add: quotient_le_def)
  from assms(5) have "dot (vecmat (vsub (cg_gradNew st) (smul 0 (cg_dir st)))
                 (cg_X_transp_AX st))
           (vsub (cg_gradNew st) (smul 0 (cg_dir st))) \<noteq> 0"
    unfolding b .
  with assms(1,2) r show ?thesis
    by (simp add: logregr_cg_step_final_def cg_update_coef_def Let_def b)
next
  case False
  then have b: "spec_cg_beta st =
      dot (cg_gradNew st) (vsub (cg_gradNew st) (cg_grad st))
        / dot (cg_dir st) (vsub (cg_gradNew st) (cg_grad st))"
    by (simp add: spec_cg_beta_def)
  from False assms(3) have r: "\<not> quotient_le (dot (cg_gradNew st) (vsub (cg_gradNew st) (cg_grad st)))
      (dot (cg_grad st) (cg_grad st)) denorm_min"
    by (simp add: quotient_le_def)
  from False assms(4) have c: "dot (cg_dir st) (vsub (cg_gradNew st) (cg_grad st)) \<noteq> 0"
    by blast
  from assms(5) have "dot (vecmat (vsub (cg_gradNew st)
         (smul (dot (cg_gradNew st) (vsub (cg_gradNew st) (cg_grad st))
                  / dot (cg_dir st) (vsub (cg_gradNew st) (cg_grad st))) (cg_dir st)))
                 (cg_X_transp_AX st))
           (vsub (cg_gradNew st)
              (smul (dot (cg_gradNew st) (vsub (cg_gradNew st) (cg_grad st))
                       / dot (cg_dir st) (vsub (cg_gradNew st) (cg_grad st))) (cg_dir st))) \<noteq> 0"
    unfolding b .
  with assms(1,2) r c show ?thesis
    by (simp add: logregr_cg_step_final_def cg_update_coef_def Let_def b)
qed

text \<open>
  Claim C7. The final function of the conjugate gradient on a state with rows: at
  iteration 0, \<open>dir = grad = gradNew\<close>; later,
  \<open>beta = (gradNew . d) / (dir . d)\<close> with \<open>d = gradNew - grad\<close>, set to 0 when
  \<open>(gradNew . d) / (grad . grad) \<le> denorm_min\<close>, then \<open>dir = gradNew - beta dir\<close> and
  \<open>grad = gradNew\<close>; in both cases
  \<open>coef += ((grad . dir) / (dir\<^sup>T (X\<^sup>T A X) dir)) dir\<close> and the iteration count goes up
  by one, the accumulated fields staying as they are. This holds where the quotients are
  finite numbers: after iteration 0, \<open>grad . grad\<close> is not zero and, unless \<open>beta\<close> is
  set to 0, \<open>dir . d\<close> is not zero; and in both cases \<open>dir\<^sup>T (X\<^sup>T A X) dir\<close> is not zero
  for the new direction. After the single row \<open>x = [1, 2]\<close>, \<open>y = +1\<close> from coefficients
  zero the state has \<open>gradNew = [1/2, 1]\<close> and \<open>logLikelihood = - ln 2\<close>, and the first
  final step sets \<open>dir = grad = [1/2, 1]\<close>.
\<close>

theorem cg_final_step:
  assumes "cg_numRows st \<noteq> 0"
    and "cg_iteration st \<noteq> 0 \<longrightarrow>
           dot (cg_grad st) (cg_grad st) \<noteq> 0
           \<and> (dot (cg_gradNew st) (vsub (cg_gradNew st) (cg_grad st))
                  / dot (cg_grad st) (cg_grad st) \<le> denorm_min
               \<or> dot (cg_dir st) (vsub (cg_gradNew st) (cg_grad st)) \<noteq> 0)"
    and "dot (vecmat (spec_cg_dir st) (cg_X_transp_AX st)) (spec_cg_dir st) \<noteq> 0"
  shows "(\<exists>s'. logregr_cg_step_final st = Val (Inr s')
           \<and> (cg_iteration st = 0 \<longrightarrow>
                cg_dir s' = cg_gradNew st \<and> cg_grad s' = cg_gradNew st
                \<and> cg_beta s' = cg_beta st)
           \<and> (cg_iteration st \<noteq> 0 \<longrightarrow>
                cg_beta s' =
                  (if dot (cg_gradNew st) (vsub (cg_gradNew st) (cg_grad st))
                        / dot (cg_grad st) (cg_grad st) \<le> denorm_min
                   then 0
                   else dot (cg_gradNew st) (vsub (cg_gradNew st) (cg_grad st))
                          / dot (cg_dir st) (vsub (cg_gradNew st) (cg_grad st)))
                \<and> cg_dir s' = vsub (cg_gradNew st) (smul (cg_beta s') (cg_dir st))
                \<and> cg_grad s' = cg_gradNew st)
           \<and> cg_coef s' =
               vadd (cg_coef st)
                 (smul (dot (cg_grad s') (cg_dir s')
                          / dot (vecmat (cg_dir s') (cg_X_transp_AX st)) (cg_dir s'))
                    (cg_dir s'))
           \<and> cg_iteration s' = cg_iteration st + 1
           \<and> cg_numRows s' = cg_numRows st \<and> cg_gradNew s' = cg_gradNew st
           \<and> cg_X_transp_AX s' = cg_X_transp_AX st
           \<and> cg_logLikelihood s' = cg_logLikelihood st \<and> cg_status s' = cg_status st
           \<and> cg_widthOfX s' = cg_widthOfX st)
    \<and> logregr_cg_step_transition (cg_zero_filled 0) True [1, 2] Null = Inr cg_scenario
    \<and> cg_coef (cg_zero_filled 2) = [0, 0]
    \<and> cg_gradNew cg_scenario = [1 / 2, 1]
    \<and> cg_logLikelihood cg_scenario = - ln 2
    \<and> logregr_cg_step_final cg_scenario =
        Val (Inr (cg_scenario\<lparr>cg_dir := [1 / 2, 1], cg_grad := [1 / 2, 1],
                    cg_coef := [2 / 5, 4 / 5], cg_iteration := 1\<rparr>))"
proof -
  have general: "\<exists>s'. logregr_cg_step_final st = Val (Inr s')
           \<and> (cg_iteration st = 0 \<longrightarrow>
                cg_dir s' = cg_gradNew st \<and> cg_grad s' = cg_gradNew st
                \<and> cg_beta s' = cg_beta st)
           \<and> (cg_iteration st \<noteq> 0 \<longrightarrow>
                cg_beta s' =
                  (if dot (cg_gradNew st) (vsub (cg_gradNew st) (cg_grad st))
                        / dot (cg_grad st) (cg_grad st) \<le> denorm_min
                   then 0
                   else dot (cg_gradNew st) (vsub (cg_gradNew st) (cg_grad st))
                          / dot (cg_dir st) (vsub (cg_gradNew st) (cg_grad st)))
                \<and> cg_dir s' = vsub (cg_gradNew st) (smul (cg_beta s') (cg_dir st))
                \<and> cg_grad s' = cg_gradNew st)
           \<and> cg_coef s' =
               vadd (cg_coef st)
                 (smul (dot (cg_grad s') (cg_dir s')
                          / dot (vecmat (cg_dir s') (cg_X_transp_AX st)) (cg_dir s'))
                    (cg_dir s'))
           \<and> cg_iteration s' = cg_iteration st + 1
           \<and> cg_numRows s' = cg_numRows st \<and> cg_gradNew s' = cg_gradNew st
           \<and> cg_X_transp_AX s' = cg_X_transp_AX st
           \<and> cg_logLikelihood s' = cg_logLikelihood st \<and> cg_status s' = cg_status st
           \<and> cg_widthOfX s' = cg_widthOfX st"
  proof (cases "cg_iteration st = 0")
    case True
    with assms(3) have q: "dot (vecmat (cg_gradNew st) (cg_X_transp_AX st)) (cg_gradNew st) \<noteq> 0"
      by (simp add: spec_cg_dir_def)
    show ?thesis
      by (simp add: cg_final_first [OF assms(1) True q] True)
  next
    case False
    with assms(2) have g: "dot (cg_grad st) (cg_grad st) \<noteq> 0"
      and c: "dot (cg_gradNew st) (vsub (cg_gradNew st) (cg_grad st))
                  / dot (cg_grad st) (cg_grad st) \<le> denorm_min
               \<or> dot (cg_dir st) (vsub (cg_gradNew st) (cg_grad st)) \<noteq> 0"
      by blast+
    from False assms(3)
    have q: "dot (vecmat (vsub (cg_gradNew st) (smul (spec_cg_beta st) (cg_dir st)))
                 (cg_X_transp_AX st))
           (vsub (cg_gradNew st) (smul (spec_cg_beta st) (cg_dir st))) \<noteq> 0"
      by (simp add: spec_cg_dir_def)
    have b: "spec_cg_beta st =
        (if dot (cg_gradNew st) (vsub (cg_gradNew st) (cg_grad st))
              / dot (cg_grad st) (cg_grad st) \<le> denorm_min
         then 0
         else dot (cg_gradNew st) (vsub (cg_gradNew st) (cg_grad st))
                / dot (cg_dir st) (vsub (cg_gradNew st) (cg_grad st)))"
      by (simp add: spec_cg_beta_def)
    show ?thesis
      using False b by (simp add: cg_final_later [OF assms(1) False g c q])
  qed
  have fields: "cg_coef (cg_zero_filled 2) = [0, 0]" "cg_gradNew cg_scenario = [1 / 2, 1]"
    "cg_logLikelihood cg_scenario = - ln 2"
    by (simp_all add: cg_zero_filled_def cg_scenario_def numeral_2_eq_2)
  from general fields cg_scenario_transition cg_scenario_final show ?thesis
    by (simp only: simp_thms)
qed

theorem cg_final_step_witness:
  "case logregr_cg_step_final cg_second of
     Val (Inr s') \<Rightarrow>
       cg_beta s' = 2 \<and> cg_dir s' = [0, - 1] \<and> cg_grad s' = [1, 1]
       \<and> cg_coef s' = [2 / 5, 9 / 5] \<and> cg_iteration s' = 2
   | _ \<Rightarrow> False"
proof -
  have big: "\<not> (2 / 5 \<le> denorm_min)" using denorm_min_small by simp
  have beta: "spec_cg_beta cg_second = 2"
    using big by (simp add: spec_cg_beta_def cg_second_def dot_def vsub_def)
  have dir: "spec_cg_dir cg_second = [0, - 1]"
    by (simp add: spec_cg_dir_def beta) (simp add: cg_second_def vsub_def smul_def)
  have h1: "cg_numRows cg_second \<noteq> 0" by (simp add: cg_second_def)
  have h2: "cg_iteration cg_second \<noteq> 0 \<longrightarrow>
           dot (cg_grad cg_second) (cg_grad cg_second) \<noteq> 0
           \<and> (dot (cg_gradNew cg_second) (vsub (cg_gradNew cg_second) (cg_grad cg_second))
                  / dot (cg_grad cg_second) (cg_grad cg_second) \<le> denorm_min
               \<or> dot (cg_dir cg_second) (vsub (cg_gradNew cg_second) (cg_grad cg_second)) \<noteq> 0)"
    by (simp add: cg_second_def dot_def vsub_def)
  have h3: "dot (vecmat (spec_cg_dir cg_second) (cg_X_transp_AX cg_second))
              (spec_cg_dir cg_second) \<noteq> 0"
    by (simp add: dir) (simp add: cg_second_def dot_def vecmat_def column_def ncols_def)
  from cg_final_step [OF h1 h2 h3] obtain s' where
    f: "logregr_cg_step_final cg_second = Val (Inr s')"
    and b: "cg_iteration cg_second \<noteq> 0 \<longrightarrow>
                cg_beta s' =
                  (if dot (cg_gradNew cg_second) (vsub (cg_gradNew cg_second) (cg_grad cg_second))
                        / dot (cg_grad cg_second) (cg_grad cg_second) \<le> denorm_min
                   then 0
                   else dot (cg_gradNew cg_second)
                            (vsub (cg_gradNew cg_second) (cg_grad cg_second))
                          / dot (cg_dir cg_second)
                              (vsub (cg_gradNew cg_second) (cg_grad cg_second)))
                \<and> cg_dir s' = vsub (cg_gradNew cg_second) (smul (cg_beta s') (cg_dir cg_second))
                \<and> cg_grad s' = cg_gradNew cg_second"
    and c: "cg_coef s' =
               vadd (cg_coef cg_second)
                 (smul (dot (cg_grad s') (cg_dir s')
                          / dot (vecmat (cg_dir s') (cg_X_transp_AX cg_second)) (cg_dir s'))
                    (cg_dir s'))"
    and i: "cg_iteration s' = cg_iteration cg_second + 1"
    by blast
  from b big have b': "cg_beta s' = 2" "cg_dir s' = [0, - 1]" "cg_grad s' = [1, 1]"
    by (auto simp: cg_second_def dot_def vsub_def smul_def)
  from c have c': "cg_coef s' = [2 / 5, 9 / 5]"
    by (simp add: b') (simp add: cg_second_def dot_def vadd_def smul_def vecmat_def column_def
        ncols_def)
  from i have i': "cg_iteration s' = 2" by (simp add: cg_second_def)
  show ?thesis by (simp add: f b' c' i')
qed

subsection \<open>Merged coefficients of the incremental gradient\<close>

lemma igd_merge_two:
  assumes "igd_numRows A \<noteq> 0" "igd_numRows B \<noteq> 0" "igd_widthOfX B = igd_widthOfX A"
  shows "logregr_igd_step_merge_states A B = Inr
     (A\<lparr>igd_coef :=
              smul (1 / real (igd_numRows A + igd_numRows B))
                (vadd (smul (real (igd_numRows A)) (igd_coef A))
                   (smul (real (igd_numRows B)) (igd_coef B))),
            igd_numRows := igd_numRows A + igd_numRows B,
            igd_X_transp_AX := madd (igd_X_transp_AX A) (igd_X_transp_AX B),
            igd_logLikelihood := igd_logLikelihood A + igd_logLikelihood B,
            igd_status := (if igd_status B = TERMINATED then igd_status B else igd_status A)\<rparr>)"
  using assms
  by (simp add: logregr_igd_step_merge_states_def igd_plus_assign_eq smul_vadd smul_smul)

lemma igd_merge_tree_average:
  assumes "partitions_ok w t"
  shows "\<exists>s. igd_merge_tree t = Inr s \<and> igd_numRows s = total_rows t \<and> igd_numRows s \<noteq> 0
           \<and> igd_widthOfX s = w
           \<and> igd_coef s = smul (1 / real (total_rows t)) (weighted_sum t)"
  using assms
proof (induction t)
  case (Leaf s)
  then show ?case by (simp add: smul_smul smul_one)
next
  case (Node l r)
  from Node obtain a where a: "igd_merge_tree l = Inr a" "igd_numRows a = total_rows l"
    "igd_numRows a \<noteq> 0" "igd_widthOfX a = w"
    "igd_coef a = smul (1 / real (total_rows l)) (weighted_sum l)"
    by auto
  from Node obtain b where b: "igd_merge_tree r = Inr b" "igd_numRows b = total_rows r"
    "igd_numRows b \<noteq> 0" "igd_widthOfX b = w"
    "igd_coef b = smul (1 / real (total_rows r)) (weighted_sum r)"
    by auto
  have ab: "igd_widthOfX b = igd_widthOfX a" using a b by simp
  have ca: "smul (real (igd_numRows a)) (igd_coef a) = weighted_sum l"
    using a by (simp add: smul_smul smul_one)
  have cb: "smul (real (igd_numRows b)) (igd_coef b) = weighted_sum r"
    using b by (simp add: smul_smul smul_one)
  show ?case
    using a(1,2,3,4) b(1,2,3,4) igd_merge_two [OF a(3) b(3) ab] ca cb by simp
qed

text \<open>
  Claim C6. Merging two incremental-gradient states that hold \<open>n\<^sub>1\<close> and \<open>n\<^sub>2\<close> rows
  (both positive) with coefficients \<open>c\<^sub>1\<close> and \<open>c\<^sub>2\<close> gives the coefficients
  \<open>(n\<^sub>1 c\<^sub>1 + n\<^sub>2 c\<^sub>2) / (n\<^sub>1 + n\<^sub>2)\<close>, a combination with weights
  \<open>n\<^sub>1 / (n\<^sub>1 + n\<^sub>2)\<close> and \<open>n\<^sub>2 / (n\<^sub>1 + n\<^sub>2)\<close> that lie between 0 and 1 and add up to 1,
  and the row count \<open>n\<^sub>1 + n\<^sub>2\<close>. After any tree of merges over partitions that each hold
  rows, the row count is the total and the coefficients are the sum of the partitions'
  coefficients weighted by their row counts, divided by the total.
\<close>

theorem igd_merge_weighted_average:
  "(igd_numRows A \<noteq> 0 \<and> igd_numRows B \<noteq> 0 \<and> igd_widthOfX B = igd_widthOfX A \<longrightarrow>
      (case logregr_igd_step_merge_states A B of
         Inl e \<Rightarrow> False
       | Inr s \<Rightarrow>
           igd_coef s =
             smul (1 / (real (igd_numRows A) + real (igd_numRows B)))
               (vadd (smul (real (igd_numRows A)) (igd_coef A))
                  (smul (real (igd_numRows B)) (igd_coef B)))
           \<and> igd_coef s =
               vadd (smul (real (igd_numRows A) / (real (igd_numRows A) + real (igd_numRows B)))
                       (igd_coef A))
                 (smul (real (igd_numRows B) / (real (igd_numRows A) + real (igd_numRows B)))
                    (igd_coef B))
           \<and> igd_numRows s = igd_numRows A + igd_numRows B)
      \<and> 0 \<le> real (igd_numRows A) / (real (igd_numRows A) + real (igd_numRows B))
      \<and> 0 \<le> real (igd_numRows B) / (real (igd_numRows A) + real (igd_numRows B))
      \<and> real (igd_numRows A) / (real (igd_numRows A) + real (igd_numRows B))
          + real (igd_numRows B) / (real (igd_numRows A) + real (igd_numRows B)) = 1)
   \<and> (partitions_ok w t \<longrightarrow>
      (case igd_merge_tree t of
         Inl e \<Rightarrow> False
       | Inr s \<Rightarrow>
           igd_numRows s = total_rows t
           \<and> igd_coef s = smul (1 / real (total_rows t)) (weighted_sum t)))"
proof (intro conjI impI)
  assume h: "igd_numRows A \<noteq> 0 \<and> igd_numRows B \<noteq> 0 \<and> igd_widthOfX B = igd_widthOfX A"
  then have n: "igd_numRows A \<noteq> 0" "igd_numRows B \<noteq> 0" and w: "igd_widthOfX B = igd_widthOfX A"
    by simp_all
  show "case logregr_igd_step_merge_states A B of
         Inl e \<Rightarrow> False
       | Inr s \<Rightarrow>
           igd_coef s =
             smul (1 / (real (igd_numRows A) + real (igd_numRows B)))
               (vadd (smul (real (igd_numRows A)) (igd_coef A))
                  (smul (real (igd_numRows B)) (igd_coef B)))
           \<and> igd_coef s =
               vadd (smul (real (igd_numRows A) / (real (igd_numRows A) + real (igd_numRows B)))
                       (igd_coef A))
                 (smul (real (igd_numRows B) / (real (igd_numRows A) + real (igd_numRows B)))
                    (igd_coef B))
           \<and> igd_numRows s = igd_numRows A + igd_numRows B"
    using n w
    by (simp add: logregr_igd_step_merge_states_def igd_plus_assign_eq smul_vadd smul_smul)
  show "0 \<le> real (igd_numRows A) / (real (igd_numRows A) + real (igd_numRows B))"
    and "0 \<le> real (igd_numRows B) / (real (igd_numRows A) + real (igd_numRows B))"
    by simp_all
  have "real (igd_numRows A) + real (igd_numRows B) \<noteq> 0" using n by simp
  then show "real (igd_numRows A) / (real (igd_numRows A) + real (igd_numRows B))
          + real (igd_numRows B) / (real (igd_numRows A) + real (igd_numRows B)) = 1"
    by (simp add: add_divide_distrib [symmetric])
next
  assume "partitions_ok w t"
  from igd_merge_tree_average [OF this]
  show "case igd_merge_tree t of
         Inl e \<Rightarrow> False
       | Inr s \<Rightarrow>
           igd_numRows s = total_rows t
           \<and> igd_coef s = smul (1 / real (total_rows t)) (weighted_sum t)"
    by auto
qed

theorem igd_merge_weighted_average_witness:
  "map_sum id igd_coef (logregr_igd_step_merge_states (igd_sample 1) (igd_sample 2))
     = Inr [5 / 3]
   \<and> map_sum id igd_numRows (logregr_igd_step_merge_states (igd_sample 1) (igd_sample 2))
     = Inr 3
   \<and> map_sum id igd_coef
       (igd_merge_tree (Node (Leaf (igd_sample 1)) (Node (Leaf (igd_sample 2)) (Leaf (igd_sample 3)))))
     = Inr [7 / 3]
   \<and> map_sum id igd_coef
       (igd_merge_tree (Node (Node (Leaf (igd_sample 3)) (Leaf (igd_sample 1))) (Leaf (igd_sample 2))))
     = Inr [7 / 3]"
proof -
  let ?t1 = "Node (Leaf (igd_sample 1)) (Node (Leaf (igd_sample 2)) (Leaf (igd_sample 3)))"
  let ?t2 = "Node (Node (Leaf (igd_sample 3)) (Leaf (igd_sample 1))) (Leaf (igd_sample 2))"
  have h: "igd_numRows (igd_sample 1) \<noteq> 0 \<and> igd_numRows (igd_sample 2) \<noteq> 0
      \<and> igd_widthOfX (igd_sample 2) = igd_widthOfX (igd_sample 1)"
    by (simp add: igd_sample_def)
  have p: "partitions_ok 1 ?t1" "partitions_ok 1 ?t2"
    by (simp_all add: igd_sample_def)
  have v: "smul (1 / (real (igd_numRows (igd_sample 1)) + real (igd_numRows (igd_sample 2))))
               (vadd (smul (real (igd_numRows (igd_sample 1))) (igd_coef (igd_sample 1)))
                  (smul (real (igd_numRows (igd_sample 2))) (igd_coef (igd_sample 2))))
             = [5 / 3]"
    "igd_numRows (igd_sample 1) + igd_numRows (igd_sample 2) = 3"
    "smul (1 / real (total_rows ?t1)) (weighted_sum ?t1) = [7 / 3]"
    "smul (1 / real (total_rows ?t2)) (weighted_sum ?t2) = [7 / 3]"
    by (simp_all add: igd_sample_def smul_def vadd_def)
  from h igd_merge_weighted_average [of "igd_sample 1" "igd_sample 2"]
  have c1: "case logregr_igd_step_merge_states (igd_sample 1) (igd_sample 2) of
         Inl e \<Rightarrow> False
       | Inr s \<Rightarrow>
           igd_coef s =
             smul (1 / (real (igd_numRows (igd_sample 1)) + real (igd_numRows (igd_sample 2))))
               (vadd (smul (real (igd_numRows (igd_sample 1))) (igd_coef (igd_sample 1)))
                  (smul (real (igd_numRows (igd_sample 2))) (igd_coef (igd_sample 2))))
           \<and> igd_coef s =
               vadd (smul (real (igd_numRows (igd_sample 1))
                             / (real (igd_numRows (igd_sample 1))
                                + real (igd_numRows (igd_sample 2))))
                       (igd_coef (igd_sample 1)))
                 (smul (real (igd_numRows (igd_sample 2))
                          / (real (igd_numRows (igd_sample 1))
                             + real (igd_numRows (igd_sample 2))))
                    (igd_coef (igd_sample 2)))
           \<and> igd_numRows s = igd_numRows (igd_sample 1) + igd_numRows (igd_sample 2)"
    by blast
  from p(1) igd_merge_weighted_average [where w = 1 and t = ?t1]
  have c2: "case igd_merge_tree ?t1 of
         Inl e \<Rightarrow> False
       | Inr s \<Rightarrow>
           igd_numRows s = total_rows ?t1
           \<and> igd_coef s = smul (1 / real (total_rows ?t1)) (weighted_sum ?t1)"
    by blast
  from p(2) igd_merge_weighted_average [where w = 1 and t = ?t2]
  have c3: "case igd_merge_tree ?t2 of
         Inl e \<Rightarrow> False
       | Inr s \<Rightarrow>
           igd_numRows s = total_rows ?t2
           \<and> igd_coef s = smul (1 / real (total_rows ?t2)) (weighted_sum ?t2)"
    by blast
  from c1 v(1,2) have "map_sum id igd_coef
        (logregr_igd_step_merge_states (igd_sample 1) (igd_sample 2)) = Inr [5 / 3]"
    and "map_sum id igd_numRows
        (logregr_igd_step_merge_states (igd_sample 1) (igd_sample 2)) = Inr 3"
    by (auto split: sum.splits)
  moreover from c2 v(3) have "map_sum id igd_coef (igd_merge_tree ?t1) = Inr [7 / 3]"
    by (auto split: sum.splits)
  moreover from c3 v(4) have "map_sum id igd_coef (igd_merge_tree ?t2) = Inr [7 / 3]"
    by (auto split: sum.splits)
  ultimately show ?thesis by simp
qed

subsection \<open>The robust variance\<close>










text \<open>A variance of zero gives no finite statistic.\<close>

lemma robust_not_finite: "robuststateToResult lib [c] [0] = Inl NonFinite"
  by (simp add: robuststateToResult_def)






end
